theory Spec2Isabelle
  imports Complex_Main "HOL-Library.Multiset" "HOL-Library.Char_ord"
begin

chapter \<open>Model\<close>

section \<open>Numbers\<close>

text \<open>
  A JavaScript \<^verbatim>\<open>number\<close> is modelled as an exact real or one of the three
  non-finite values. Rounding and overflow of finite arithmetic are not modelled, and
  zero carries no sign (a zero divisor counts as \<^verbatim>\<open>+0\<close>). Division follows IEEE:
  it never raises, and a zero divisor gives \<^verbatim>\<open>NaN\<close> or an infinity.
\<close>

datatype jsnum = Fin real | PosInf | NegInf | NaN

fun jsneg :: "jsnum \<Rightarrow> jsnum" where
  "jsneg (Fin a) = Fin (- a)"
| "jsneg PosInf = NegInf"
| "jsneg NegInf = PosInf"
| "jsneg NaN = NaN"

fun jsadd :: "jsnum \<Rightarrow> jsnum \<Rightarrow> jsnum" where
  "jsadd NaN _ = NaN"
| "jsadd _ NaN = NaN"
| "jsadd (Fin a) (Fin b) = Fin (a + b)"
| "jsadd PosInf NegInf = NaN"
| "jsadd NegInf PosInf = NaN"
| "jsadd PosInf _ = PosInf"
| "jsadd NegInf _ = NegInf"
| "jsadd (Fin a) b = b"

definition jssub :: "jsnum \<Rightarrow> jsnum \<Rightarrow> jsnum" where
  "jssub a b = jsadd a (jsneg b)"

text \<open>The sign of a number: \<open>Some True\<close> positive, \<open>Some False\<close> negative, \<open>None\<close> zero or NaN.\<close>

fun jssign :: "jsnum \<Rightarrow> bool option" where
  "jssign (Fin a) = (if a > 0 then Some True else if a < 0 then Some False else None)"
| "jssign PosInf = Some True"
| "jssign NegInf = Some False"
| "jssign NaN = None"

definition signedInf :: "bool \<Rightarrow> jsnum" where
  "signedInf pos = (if pos then PosInf else NegInf)"

fun jsmul :: "jsnum \<Rightarrow> jsnum \<Rightarrow> jsnum" where
  "jsmul (Fin a) (Fin b) = Fin (a * b)"
| "jsmul a b =
     (case (jssign a, jssign b) of
        (Some s, Some t) \<Rightarrow> signedInf (s = t)
      | _ \<Rightarrow> NaN)"

fun jsdiv :: "jsnum \<Rightarrow> jsnum \<Rightarrow> jsnum" where
  "jsdiv NaN _ = NaN"
| "jsdiv _ NaN = NaN"
| "jsdiv (Fin a) (Fin b) =
     (if b \<noteq> 0 then Fin (a / b)
      else if a > 0 then PosInf else if a < 0 then NegInf else NaN)"
| "jsdiv (Fin a) _ = Fin 0"
| "jsdiv a (Fin b) = (case jssign a of Some s \<Rightarrow> signedInf (s = (b \<ge> 0)) | None \<Rightarrow> NaN)"
| "jsdiv _ _ = NaN"

fun jsfloor :: "jsnum \<Rightarrow> jsnum" where
  "jsfloor (Fin a) = Fin (of_int \<lfloor>a\<rfloor>)"
| "jsfloor a = a"

fun jslt :: "jsnum \<Rightarrow> jsnum \<Rightarrow> bool" where
  "jslt NaN _ = False"
| "jslt _ NaN = False"
| "jslt (Fin a) (Fin b) = (a < b)"
| "jslt _ NegInf = False"
| "jslt PosInf _ = False"
| "jslt _ _ = True"

fun jsle :: "jsnum \<Rightarrow> jsnum \<Rightarrow> bool" where
  "jsle NaN _ = False"
| "jsle _ NaN = False"
| "jsle a b = (a = b \<or> jslt a b)"

definition jsgt :: "jsnum \<Rightarrow> jsnum \<Rightarrow> bool" where
  "jsgt a b = jslt b a"

definition jsge :: "jsnum \<Rightarrow> jsnum \<Rightarrow> bool" where
  "jsge a b = jsle b a"

text \<open>\<^verbatim>\<open>Math.max\<close> of two numbers: NaN when either is.\<close>

definition jsmax :: "jsnum \<Rightarrow> jsnum \<Rightarrow> jsnum" where
  "jsmax a b = (if a = NaN \<or> b = NaN then NaN else if jslt a b then b else a)"

text \<open>Truthiness of a number: everything but zero and NaN.\<close>

definition truthy :: "jsnum \<Rightarrow> bool" where
  "truthy a = (a \<noteq> Fin 0 \<and> a \<noteq> NaN)"

definition nonFinite :: "jsnum \<Rightarrow> bool" where
  "nonFinite a = (case a of Fin _ \<Rightarrow> False | _ \<Rightarrow> True)"

section \<open>Types of the analysis and of the backtest\<close>

text \<open>
  A \<^verbatim>\<open>Date\<close> is its time value, milliseconds since the epoch, as an \<open>int\<close>; the
  local time zone is taken to be UTC, so a calendar day is \<open>msPerDay\<close>
  milliseconds and two dates fall on the same day when their day numbers agree. Record fields keep the names of the TypeScript interfaces,
  prefixed where two interfaces share a name.
\<close>

definition msPerDay :: int where
  "msPerDay = 1000 * 60 * 60 * 24"

record SignalDetails =
  insiderBuys :: nat
  congressBuys :: nat
  institutionalIncreases :: nat

datatype BuyerType = CEO | CFO | Director | Officer | TenPercentOwner | Congress | Institution

record RecentBuyer =
  rb_name :: string
  rb_type :: BuyerType
  rb_date :: int
  rb_amount :: "jsnum option"
  rb_amountRange :: "(jsnum \<times> jsnum) option"

record ConvergenceSignal =
  s_ticker :: string
  s_companyName :: "string option"
  s_date :: int
  convergenceScore :: real
  insiderScore :: real
  congressScore :: real
  institutionalScore :: real
  convergenceBonus :: real
  signals :: SignalDetails
  recentBuyers :: "RecentBuyer list"

record BacktestConfig =
  startDate :: int
  endDate :: int
  initialCapital :: jsnum
  minConvergenceScore :: jsnum
  maxPositions :: int
  holdingPeriodDays :: int
  stopLoss :: "jsnum option"
  takeProfit :: "jsnum option"

datatype ExitReason = holding_period | stop_loss | take_profit | end_of_test

text \<open>
  The simulator keeps one mutable \<^verbatim>\<open>Date\<close> object, \<^verbatim>\<open>currentDate\<close>, and stores
  the object itself (not a copy) as the entry date of a position and as the entry and
  exit date of a trade. A stored date is therefore a reference; the only object ever
  stored is the loop's own.
\<close>

datatype DateRef = CurrentDateObject

record BacktestTrade =
  t_ticker :: string
  t_entryDate :: DateRef
  t_entryPrice :: jsnum
  t_exitDate :: DateRef
  t_exitPrice :: jsnum
  t_shares :: jsnum
  positionValue :: jsnum
  returnPercent :: jsnum
  returnDollars :: jsnum
  convergenceScoreAtEntry :: real
  holdingDays :: int
  exitReason :: ExitReason

record BacktestResult =
  config :: BacktestConfig
  period :: "(int \<times> int) option"
  trades :: "BacktestTrade list"
  totalReturn :: jsnum
  totalReturnDollars :: jsnum
  finalCapital :: jsnum
  winRate :: jsnum
  avgWin :: jsnum
  avgLoss :: jsnum
  maxDrawdown :: jsnum
  maxDrawdownDate :: "int option"
  totalTrades :: nat
  winningTrades :: nat
  losingTrades :: nat
  avgHoldingPeriod :: jsnum

record SPYComparison =
  strategyReturn :: jsnum
  spyReturn :: jsnum
  alpha :: jsnum
  outperformed :: bool
  strategyFinalValue :: jsnum
  spyFinalValue :: jsnum

record HistoricalPrice =
  hp_date :: int
  hp_open :: jsnum
  hp_high :: jsnum
  hp_low :: jsnum
  hp_close :: jsnum
  adjustedClose :: jsnum
  volume :: jsnum

text \<open>
  \<^verbatim>\<open>loadHistoricalPrices\<close> fetches the daily bars of a ticker over a range from a
  remote service, caches them under (ticker, start, end) and returns an empty list when
  the request fails. The service is a parameter of the model: a function from the
  ticker and the two ends of the range to the bars returned.
\<close>

type_synonym PriceSource = "string \<Rightarrow> int \<Rightarrow> int \<Rightarrow> HistoricalPrice list"

section \<open>Benchmark comparison\<close>

definition degenerateComparison :: "BacktestResult \<Rightarrow> SPYComparison" where
  "degenerateComparison result =
     \<lparr> strategyReturn = totalReturn result,
       spyReturn = Fin 0,
       alpha = totalReturn result,
       outperformed = True,
       strategyFinalValue = finalCapital result,
       spyFinalValue = initialCapital (config result) \<rparr>"

definition compareToSPY :: "PriceSource \<Rightarrow> BacktestResult \<Rightarrow> SPYComparison" where
  "compareToSPY loadHistoricalPrices result =
     (case period result of
        None \<Rightarrow> degenerateComparison result
      | Some (pStart, pEnd) \<Rightarrow>
          (let spyPrices = loadHistoricalPrices ''SPY'' pStart pEnd in
           if length spyPrices < 2 then degenerateComparison result
           else
             let spyStartPrice = hp_close (spyPrices ! 0);
                 spyEndPrice = hp_close (spyPrices ! (length spyPrices - 1));
                 spyRet = jsmul (jsdiv (jssub spyEndPrice spyStartPrice) spyStartPrice) (Fin 100);
                 a = jssub (totalReturn result) spyRet
             in \<lparr> strategyReturn = totalReturn result,
                  spyReturn = spyRet,
                  alpha = a,
                  outperformed = jsgt (totalReturn result) spyRet,
                  strategyFinalValue = finalCapital result,
                  spyFinalValue =
                    jsmul (initialCapital (config result))
                      (jsadd (Fin 1) (jsdiv spyRet (Fin 100))) \<rparr>))"

text \<open>The benchmark bars that \<open>compareToSPY\<close> sees for a result, none without a period.\<close>

definition benchmarkPoints :: "PriceSource \<Rightarrow> BacktestResult \<Rightarrow> HistoricalPrice list" where
  "benchmarkPoints loadHistoricalPrices result =
     (case period result of
        None \<Rightarrow> []
      | Some (pStart, pEnd) \<Rightarrow> loadHistoricalPrices ''SPY'' pStart pEnd)"

section \<open>Raw events\<close>

datatype TransactionType = BUY | SELL | EXERCISE | GIFT | OTHER

datatype Chamber = HOUSE | SENATE

datatype OwnershipType = DIRECT | INDIRECT

datatype ChangeType = INCREASE | DECREASE | NEW | SOLD_OUT | NO_CHANGE

datatype DataSource = SEC_FORM4 | STOCK_ACT | SEC_13F | SEC_13D | SEC_13G

record InsiderTransaction =
  i_id :: "string option"
  i_ticker :: string
  i_companyName :: "string option"
  insiderName :: string
  insiderTitle :: string
  insiderCIK :: "string option"
  i_transactionType :: TransactionType
  i_shares :: jsnum
  pricePerShare :: jsnum
  i_transactionDate :: int
  i_filingDate :: int
  ownershipType :: OwnershipType
  i_source :: DataSource

record CongressTransaction =
  c_id :: "string option"
  memberName :: string
  chamber :: Chamber
  state :: string
  committees :: "string list option"
  c_ticker :: string
  assetDescription :: string
  c_transactionType :: string
  c_transactionDate :: int
  disclosureDate :: int
  amountRange :: "jsnum \<times> jsnum"
  c_source :: DataSource

record InstitutionalHolding =
  h_id :: "string option"
  institutionName :: string
  institutionCIK :: string
  h_ticker :: string
  h_companyName :: "string option"
  cusip :: string
  h_shares :: jsnum
  h_value :: jsnum
  h_filingDate :: int
  reportDate :: int
  changeType :: "ChangeType option"
  changePercent :: "jsnum option"
  previousShares :: "jsnum option"
  ownershipPercent :: "jsnum option"
  h_source :: DataSource

text \<open>The transaction kind as the string the weight functions compare.\<close>

fun kindString :: "TransactionType \<Rightarrow> string" where
  "kindString BUY = ''BUY''"
| "kindString SELL = ''SELL''"
| "kindString EXERCISE = ''EXERCISE''"
| "kindString GIFT = ''GIFT''"
| "kindString OTHER = ''OTHER''"

section \<open>Strings\<close>


definition lowerLetters :: string where
  "lowerLetters = ''abcdefghijklmnopqrstuvwxyz''"

definition upperLetters :: string where
  "upperLetters = ''ABCDEFGHIJKLMNOPQRSTUVWXYZ''"

definition toUpperCase :: "string \<Rightarrow> string" where
  "toUpperCase s =
     map (\<lambda>c. case map_of (zip lowerLetters upperLetters) c of Some u \<Rightarrow> u | None \<Rightarrow> c) s"

definition toLowerCase :: "string \<Rightarrow> string" where
  "toLowerCase s =
     map (\<lambda>c. case map_of (zip upperLetters lowerLetters) c of Some l \<Rightarrow> l | None \<Rightarrow> c) s"

fun startsWith :: "string \<Rightarrow> string \<Rightarrow> bool" where
  "startsWith s [] = True"
| "startsWith [] (c # cs) = False"
| "startsWith (x # xs) (c # cs) = (x = c \<and> startsWith xs cs)"

text \<open>\<^verbatim>\<open>s.includes(sub)\<close>: \<open>sub\<close> occurs in \<open>s\<close> as a contiguous substring.\<close>

fun str_includes :: "string \<Rightarrow> string \<Rightarrow> bool" where
  "str_includes [] sub = (sub = [])"
| "str_includes (x # xs) sub = (startsWith (x # xs) sub \<or> str_includes xs sub)"

section \<open>Weight calculator\<close>

definition INSIDER_WEIGHTS :: "(string \<times> real) list" where
  "INSIDER_WEIGHTS =
     [(''CEO'', 10), (''CFO'', 9), (''COO'', 8), (''President'', 8),
      (''Chief Executive Officer'', 10), (''Chief Financial Officer'', 9),
      (''Chief Operating Officer'', 8), (''Director'', 5), (''Officer'', 6),
      (''10% Owner'', 7), (''VP'', 4), (''Vice President'', 4), (''Secretary'', 3),
      (''Treasurer'', 4), (''General'', 3)]"


definition CONGRESS_COMMITTEE_WEIGHTS :: "(string \<times> real) list" where
  "CONGRESS_COMMITTEE_WEIGHTS =
     [(''Finance'', 10), (''Banking'', 10), (''Ways and Means'', 9),
      (''Financial Services'', 9), (''Commerce'', 8), (''Energy'', 8),
      (''Armed Services'', 7), (''Intelligence'', 8), (''Judiciary'', 6),
      (''Appropriations'', 7)]"

record SizeMultipliers =
  small :: real
  medium :: real
  large :: real
  xlarge :: real
  mega :: real

definition TRANSACTION_SIZE_MULTIPLIERS :: SizeMultipliers where
  "TRANSACTION_SIZE_MULTIPLIERS =
     \<lparr> small = 1, medium = 3 / 2, large = 2, xlarge = 3, mega = 5 \<rparr>"

record InsiderWeightInput =
  wi_insiderTitle :: string
  wi_transactionType :: string
  wi_shares :: jsnum
  wi_pricePerShare :: jsnum

record CongressWeightInput =
  wc_memberName :: string
  wc_committees :: "string list option"
  wc_transactionType :: string
  wc_amountRange :: "jsnum \<times> jsnum"

text \<open>
  The base weight of a title: the loop over the entries of \<open>INSIDER_WEIGHTS\<close>, from
  the default 3, taking the largest weight of an entry whose name occurs in the title
  (both in upper case). \<open>titleStep\<close> is the body of the loop.
\<close>

definition titleStep :: "string \<Rightarrow> real \<Rightarrow> string \<times> real \<Rightarrow> real" where
  "titleStep titleUpper baseWeight entry =
     (if str_includes titleUpper (toUpperCase (fst entry)) then max baseWeight (snd entry)
      else baseWeight)"

definition insiderBaseWeight :: "string \<Rightarrow> real" where
  "insiderBaseWeight title = foldl (titleStep (toUpperCase title)) 3 INSIDER_WEIGHTS"

definition insiderSizeMultiplier :: "jsnum \<Rightarrow> real" where
  "insiderSizeMultiplier totalValue =
     (if jsge totalValue (Fin 5000000) then mega TRANSACTION_SIZE_MULTIPLIERS
      else if jsge totalValue (Fin 1000000) then xlarge TRANSACTION_SIZE_MULTIPLIERS
      else if jsge totalValue (Fin 250000) then large TRANSACTION_SIZE_MULTIPLIERS
      else if jsge totalValue (Fin 50000) then medium TRANSACTION_SIZE_MULTIPLIERS
      else small TRANSACTION_SIZE_MULTIPLIERS)"

definition calculateInsiderWeight :: "InsiderWeightInput \<Rightarrow> real" where
  "calculateInsiderWeight input =
     (let baseWeight = insiderBaseWeight (wi_insiderTitle input);
          txMultiplier =
            (if wi_transactionType input = ''BUY'' then 3 / 2
             else if wi_transactionType input = ''SELL'' then 3 / 10 else 1);
          totalValue = jsmul (wi_shares input) (wi_pricePerShare input);
          sizeMultiplier = insiderSizeMultiplier totalValue
      in baseWeight * txMultiplier * sizeMultiplier)"

definition committeeStep :: "string \<Rightarrow> real \<Rightarrow> string \<times> real \<Rightarrow> real" where
  "committeeStep committee bonus entry =
     (if str_includes (toLowerCase committee) (toLowerCase (fst entry))
      then max bonus (snd entry) else bonus)"

definition committeeBonusOf :: "string list \<Rightarrow> real" where
  "committeeBonusOf cs =
     foldl (\<lambda>bonus committee. foldl (committeeStep committee) bonus CONGRESS_COMMITTEE_WEIGHTS)
       0 cs"

definition calculateCongressWeight :: "CongressWeightInput \<Rightarrow> real" where
  "calculateCongressWeight input =
     (let cs = (case wc_committees input of None \<Rightarrow> [] | Some l \<Rightarrow> l);
          baseWeight = 5;
          committeeBonus = committeeBonusOf cs;
          txMultiplier = (if wc_transactionType input = ''PURCHASE'' then 3 / 2 else 1 / 2);
          avgAmount =
            jsdiv (jsadd (fst (wc_amountRange input)) (snd (wc_amountRange input))) (Fin 2);
          amountMultiplier =
            (if jsge avgAmount (Fin 1000000) then 3
             else if jsge avgAmount (Fin 250000) then 2
             else if jsge avgAmount (Fin 50000) then 3 / 2 else 1)
      in (baseWeight + committeeBonus) * txMultiplier * amountMultiplier)"

definition calculateInstitutionalWeight :: "InstitutionalHolding \<Rightarrow> real" where
  "calculateInstitutionalWeight holding =
     (let w0 = 5;
          w1 = (if changeType holding = Some NEW then w0 * 2
                else if changeType holding = Some INCREASE then w0 * (3 / 2)
                else if changeType holding = Some DECREASE \<or> changeType holding = Some SOLD_OUT
                then w0 * (3 / 10) else w0);
          valueMillions = jsdiv (h_value holding) (Fin 1000000);
          w2 = (if jsge valueMillions (Fin 1000) then w1 * 3
                else if jsge valueMillions (Fin 100) then w1 * 2
                else if jsge valueMillions (Fin 10) then w1 * (3 / 2) else w1);
          w3 = (case ownershipPercent holding of
                  None \<Rightarrow> w2
                | Some pct \<Rightarrow> if truthy pct \<and> jsge pct (Fin 10) then w2 * (3 / 2) else w2)
      in w3)"

section \<open>Convergence detector\<close>

record ConvergenceInput =
  insiderTransactions :: "InsiderTransaction list"
  congressTransactions :: "CongressTransaction list"
  institutionalHoldings :: "InstitutionalHolding list"
  lookbackDays :: int

record TickerActivity =
  insider :: "InsiderTransaction list"
  congress :: "CongressTransaction list"
  institutional :: "InstitutionalHolding list"

text \<open>
  \<^verbatim>\<open>tickerActivity\<close> is a plain object used as a dictionary: an association list
  in the order the keys were first written. Tickers are taken to be ordinary keys (not
  the name of a member of \<^verbatim>\<open>Object.prototype\<close>).
\<close>

type_synonym ActivityTable = "(string \<times> TickerActivity) list"

definition emptyActivity :: TickerActivity where
  "emptyActivity = \<lparr> insider = [], congress = [], institutional = [] \<rparr>"

definition ensureTicker :: "string \<Rightarrow> ActivityTable \<Rightarrow> ActivityTable" where
  "ensureTicker t acts = (if map_of acts t = None then acts @ [(t, emptyActivity)] else acts)"

definition updateEntry ::
  "string \<Rightarrow> (TickerActivity \<Rightarrow> TickerActivity) \<Rightarrow> ActivityTable \<Rightarrow> ActivityTable" where
  "updateEntry t f acts = map (\<lambda>e. if fst e = t then (fst e, f (snd e)) else e) acts"

definition addInsider :: "ActivityTable \<Rightarrow> InsiderTransaction \<Rightarrow> ActivityTable" where
  "addInsider acts tx =
     updateEntry (i_ticker tx) (\<lambda>a. a \<lparr> insider := insider a @ [tx] \<rparr>)
       (ensureTicker (i_ticker tx) acts)"

definition addCongress :: "ActivityTable \<Rightarrow> CongressTransaction \<Rightarrow> ActivityTable" where
  "addCongress acts tx =
     updateEntry (c_ticker tx) (\<lambda>a. a \<lparr> congress := congress a @ [tx] \<rparr>)
       (ensureTicker (c_ticker tx) acts)"

definition addHolding :: "ActivityTable \<Rightarrow> InstitutionalHolding \<Rightarrow> ActivityTable" where
  "addHolding acts h =
     updateEntry (h_ticker h) (\<lambda>a. a \<lparr> institutional := institutional a @ [h] \<rparr>)
       (ensureTicker (h_ticker h) acts)"

definition groupByTicker :: "ConvergenceInput \<Rightarrow> ActivityTable" where
  "groupByTicker input =
     foldl addHolding
       (foldl addCongress
          (foldl addInsider [] (insiderTransactions input))
          (congressTransactions input))
       (institutionalHoldings input)"

text \<open>
  \<^verbatim>\<open>Object.entries\<close> lists the keys that are array indices (canonical decimal
  numerals below \<open>2^32 - 1\<close>) first, in ascending numeric order, and then the other
  keys in the order they were created.
\<close>

definition digits :: string where
  "digits = ''0123456789''"

definition indexValue :: "string \<Rightarrow> nat" where
  "indexValue s =
     foldl (\<lambda>n c. 10 * n + (case map_of (zip digits [0 ..< 10]) c of Some d \<Rightarrow> d | None \<Rightarrow> 0))
       0 s"

definition isArrayIndex :: "string \<Rightarrow> bool" where
  "isArrayIndex s =
     (s \<noteq> [] \<and> list_all (\<lambda>c. c \<in> set digits) s \<and> (s = ''0'' \<or> hd s \<noteq> CHR ''0'') \<and>
      indexValue s < 2 ^ 32 - 1)"

definition objectEntries :: "ActivityTable \<Rightarrow> ActivityTable" where
  "objectEntries acts =
     sort_key (\<lambda>e. indexValue (fst e)) (filter (\<lambda>e. isArrayIndex (fst e)) acts) @
     filter (\<lambda>e. \<not> isArrayIndex (fst e)) acts"

definition getInsiderType :: "string \<Rightarrow> BuyerType" where
  "getInsiderType title =
     (let titleUpper = toUpperCase title in
      if str_includes titleUpper ''CEO'' \<or> str_includes titleUpper ''CHIEF EXECUTIVE'' then CEO
      else if str_includes titleUpper ''CFO'' \<or> str_includes titleUpper ''CHIEF FINANCIAL'' then CFO
      else if str_includes titleUpper ''10%'' \<or> str_includes titleUpper ''TEN PERCENT''
      then TenPercentOwner
      else if str_includes titleUpper ''DIRECTOR'' then Director
      else Officer)"

definition insiderWeightOf :: "InsiderTransaction \<Rightarrow> real" where
  "insiderWeightOf tx =
     calculateInsiderWeight
       \<lparr> wi_insiderTitle = insiderTitle tx,
         wi_transactionType = kindString (i_transactionType tx),
         wi_shares = i_shares tx,
         wi_pricePerShare = pricePerShare tx \<rparr>"

definition congressWeightOf :: "CongressTransaction \<Rightarrow> real" where
  "congressWeightOf tx =
     calculateCongressWeight
       \<lparr> wc_memberName = memberName tx,
         wc_committees = committees tx,
         wc_transactionType = c_transactionType tx,
         wc_amountRange = amountRange tx \<rparr>"

definition insiderBuyer :: "InsiderTransaction \<Rightarrow> RecentBuyer" where
  "insiderBuyer tx =
     \<lparr> rb_name = insiderName tx, rb_type = getInsiderType (insiderTitle tx),
       rb_date = i_transactionDate tx,
       rb_amount = Some (jsmul (i_shares tx) (pricePerShare tx)), rb_amountRange = None \<rparr>"

definition congressBuyer :: "CongressTransaction \<Rightarrow> RecentBuyer" where
  "congressBuyer tx =
     \<lparr> rb_name = memberName tx, rb_type = Congress, rb_date = c_transactionDate tx,
       rb_amount = None, rb_amountRange = Some (amountRange tx) \<rparr>"

definition institutionBuyer :: "InstitutionalHolding \<Rightarrow> RecentBuyer" where
  "institutionBuyer h =
     \<lparr> rb_name = institutionName h, rb_type = Institution, rb_date = h_filingDate h,
       rb_amount = Some (h_value h), rb_amountRange = None \<rparr>"

text \<open>The overall score as the code computes it, from the number of active categories.\<close>

definition overallScore :: "real \<Rightarrow> real \<Rightarrow> real \<Rightarrow> real \<Rightarrow> nat \<Rightarrow> real" where
  "overallScore normalizedInsider normalizedCongress normalizedInstitutional bonus activeCategories =
     min 100
       ((normalizedInsider * (35 / 100) + normalizedCongress * (3 / 10) +
         normalizedInstitutional * (25 / 100) + bonus) *
        (if activeCategories \<ge> 2 then 12 / 10 else 1))"

text \<open>
  The body of the loop over the tickers, one definition for each of its local values:
  the bullish events of each category, the sums of their weights (the running sums are
  written as \<open>sum_list\<close>), the number of active categories, the bonus, the
  normalization, the buyers listed and the company name.
\<close>

definition insiderBuysOf :: "TickerActivity \<Rightarrow> InsiderTransaction list" where
  "insiderBuysOf activity = filter (\<lambda>t. i_transactionType t = BUY) (insider activity)"

definition congressBuysOf :: "TickerActivity \<Rightarrow> CongressTransaction list" where
  "congressBuysOf activity =
     filter (\<lambda>t. c_transactionType t = ''PURCHASE'') (congress activity)"

definition institutionalIncreasesOf :: "TickerActivity \<Rightarrow> InstitutionalHolding list" where
  "institutionalIncreasesOf activity =
     filter (\<lambda>h. changeType h = Some INCREASE \<or> changeType h = Some NEW)
       (institutional activity)"

definition insiderSum :: "TickerActivity \<Rightarrow> real" where
  "insiderSum activity = sum_list (map insiderWeightOf (insiderBuysOf activity))"

definition congressSum :: "TickerActivity \<Rightarrow> real" where
  "congressSum activity = sum_list (map congressWeightOf (congressBuysOf activity))"

definition institutionalSum :: "TickerActivity \<Rightarrow> real" where
  "institutionalSum activity =
     sum_list (map calculateInstitutionalWeight (institutionalIncreasesOf activity))"

definition activeCategoriesOf :: "TickerActivity \<Rightarrow> nat" where
  "activeCategoriesOf activity =
     length (filter id
       [insiderBuysOf activity \<noteq> [], congressBuysOf activity \<noteq> [],
        institutionalIncreasesOf activity \<noteq> []])"

definition bonusOf :: "nat \<Rightarrow> real" where
  "bonusOf activeCategories =
     (if activeCategories \<ge> 3 then 30 else if activeCategories \<ge> 2 then 15 else 0)"

definition normalized :: "real \<Rightarrow> real" where
  "normalized score = min 100 (score * 2)"

definition buyersOf :: "TickerActivity \<Rightarrow> RecentBuyer list" where
  "buyersOf activity =
     map insiderBuyer (take 5 (insiderBuysOf activity)) @
     map congressBuyer (take 3 (congressBuysOf activity)) @
     map institutionBuyer (take 3 (institutionalIncreasesOf activity))"

definition companyNameOf :: "TickerActivity \<Rightarrow> string option" where
  "companyNameOf activity =
     (let firstInsiderName =
            (case insider activity of [] \<Rightarrow> None | tx # _ \<Rightarrow> i_companyName tx)
      in if firstInsiderName \<noteq> None \<and> firstInsiderName \<noteq> Some [] then firstInsiderName
         else (case institutional activity of [] \<Rightarrow> None | h # _ \<Rightarrow> h_companyName h))"

text \<open>
  The signal of one ticker, which the detector keeps when its score exceeds 10;
  \<open>now\<close> is the clock read for the signal's date.
\<close>

definition tickerSignal :: "int \<Rightarrow> string \<times> TickerActivity \<Rightarrow> ConvergenceSignal" where
  "tickerSignal now entry =
     \<lparr> s_ticker = fst entry,
       s_companyName = companyNameOf (snd entry),
       s_date = now,
       convergenceScore =
         overallScore (normalized (insiderSum (snd entry))) (normalized (congressSum (snd entry)))
           (normalized (institutionalSum (snd entry)))
           (bonusOf (activeCategoriesOf (snd entry))) (activeCategoriesOf (snd entry)),
       insiderScore = normalized (insiderSum (snd entry)),
       congressScore = normalized (congressSum (snd entry)),
       institutionalScore = normalized (institutionalSum (snd entry)),
       convergenceBonus = bonusOf (activeCategoriesOf (snd entry)),
       signals =
         \<lparr> insiderBuys = length (insiderBuysOf (snd entry)),
           congressBuys = length (congressBuysOf (snd entry)),
           institutionalIncreases = length (institutionalIncreasesOf (snd entry)) \<rparr>,
       recentBuyers = sort_key (\<lambda>b. - rb_date b) (buyersOf (snd entry)) \<rparr>"

definition detectConvergence :: "int \<Rightarrow> ConvergenceInput \<Rightarrow> ConvergenceSignal list" where
  "detectConvergence now input =
     sort_key (\<lambda>s. - convergenceScore s)
       (filter (\<lambda>s. convergenceScore s > 10)
          (map (tickerSignal now) (objectEntries (groupByTicker input))))"

text \<open>
  The overall score written as a function of the three category scores and the bonus
  alone, as the specification describes it: the uplift applies exactly when the bonus
  is not zero.
\<close>

definition scoreOfCategoriesAndBonus :: "real \<Rightarrow> real \<Rightarrow> real \<Rightarrow> real \<Rightarrow> real" where
  "scoreOfCategoriesAndBonus i c h bonus =
     min 100 ((i * (35 / 100) + c * (3 / 10) + h * (25 / 100) + bonus) *
              (if bonus > 0 then 12 / 10 else 1))"

section \<open>Database\<close>

text \<open>
  Printing in a template string. A \<^verbatim>\<open>Date\<close> object prints with
  \<^verbatim>\<open>Date.prototype.toString\<close>, in the local zone and to the second; the JSON text
  of a date is its \<^verbatim>\<open>toISOString\<close>, in UTC and to the millisecond. Both are
  written out below for the local zone UTC, from the civil date of a day number (the days
  since 1 January 1970). How a number prints is a parameter of the model.
\<close>

fun decimal :: "nat \<Rightarrow> string" where
  "decimal n =
     (if n < 10 then [digits ! n] else decimal (n div 10) @ [digits ! (n mod 10)])"

declare decimal.simps [simp del]

text \<open>\<open>padded w n\<close>: the decimal digits of \<open>n\<close>, with zeros in front up to the width \<open>w\<close>.\<close>

definition padded :: "nat \<Rightarrow> nat \<Rightarrow> string" where
  "padded w n = replicate (w - length (decimal n)) (CHR ''0'') @ decimal n"

text \<open>
  The calendar functions of a time value, as the language defines them
  (\<^verbatim>\<open>YearFromTime\<close>, \<^verbatim>\<open>MonthFromTime\<close> from 0, \<^verbatim>\<open>DateFromTime\<close>,
  \<^verbatim>\<open>WeekDay\<close> from Sunday), computed from the day number with the years
  counted from 1 March in eras of 400 years.
\<close>

definition Day :: "int \<Rightarrow> int" where
  "Day t = t div msPerDay"

definition eraOf :: "int \<Rightarrow> int" where
  "eraOf day = (day + 719468) div 146097"

definition dayOfEra :: "int \<Rightarrow> int" where
  "dayOfEra day = day + 719468 - eraOf day * 146097"

definition yearOfEra :: "int \<Rightarrow> int" where
  "yearOfEra doe = (doe - doe div 1460 + doe div 36524 - doe div 146096) div 365"

definition dayOfYear :: "int \<Rightarrow> int" where
  "dayOfYear doe =
     doe - (365 * yearOfEra doe + yearOfEra doe div 4 - yearOfEra doe div 100)"

definition monthFromMarch :: "int \<Rightarrow> int" where
  "monthFromMarch doy = (5 * doy + 2) div 153"

definition MonthFromTime :: "int \<Rightarrow> nat" where
  "MonthFromTime t =
     (let mp = monthFromMarch (dayOfYear (dayOfEra (Day t)))
      in nat (if mp < 10 then mp + 2 else mp - 10))"

definition DateFromTime :: "int \<Rightarrow> nat" where
  "DateFromTime t =
     (let doy = dayOfYear (dayOfEra (Day t))
      in nat (doy - (153 * monthFromMarch doy + 2) div 5 + 1))"

definition YearFromTime :: "int \<Rightarrow> int" where
  "YearFromTime t =
     yearOfEra (dayOfEra (Day t)) + eraOf (Day t) * 400 +
     (if MonthFromTime t \<le> 1 then 1 else 0)"

definition WeekDay :: "int \<Rightarrow> nat" where
  "WeekDay t = nat ((Day t + 4) mod 7)"

definition weekDays :: "string list" where
  "weekDays = [''Sun'', ''Mon'', ''Tue'', ''Wed'', ''Thu'', ''Fri'', ''Sat'']"

definition monthNames :: "string list" where
  "monthNames =
     [''Jan'', ''Feb'', ''Mar'', ''Apr'', ''May'', ''Jun'', ''Jul'', ''Aug'', ''Sep'', ''Oct'',
      ''Nov'', ''Dec'']"

definition timeOfDay :: "int \<Rightarrow> string" where
  "timeOfDay t =
     padded 2 (nat (t mod msPerDay) div 3600000) @ '':'' @
     padded 2 (nat (t mod msPerDay) div 60000 mod 60) @ '':'' @
     padded 2 (nat (t mod msPerDay) div 1000 mod 60)"

definition yearSign :: "int \<Rightarrow> string" where
  "yearSign y = (if y < 0 then ''-'' else [])"

definition dateToString :: "int \<Rightarrow> string" where
  "dateToString t =
     weekDays ! WeekDay t @ '' '' @ monthNames ! MonthFromTime t @ '' '' @
     padded 2 (DateFromTime t) @ '' '' @
     yearSign (YearFromTime t) @ padded 4 (nat \<bar>YearFromTime t\<bar>) @ '' '' @
     timeOfDay t @ '' GMT+0000 (Coordinated Universal Time)''"

definition isoYear :: "int \<Rightarrow> string" where
  "isoYear y =
     (if 0 \<le> y \<and> y \<le> 9999 then padded 4 (nat y)
      else (if y < 0 then ''-'' else ''+'') @ padded 6 (nat \<bar>y\<bar>))"

definition toISOString :: "int \<Rightarrow> string" where
  "toISOString t =
     isoYear (YearFromTime t) @ ''-'' @ padded 2 (MonthFromTime t + 1) @ ''-'' @
     padded 2 (DateFromTime t) @ ''T'' @ timeOfDay t @ ''.'' @
     padded 3 (nat (t mod 1000)) @ ''Z''"

text \<open>
  The database is an object holding the stored collections, absent until
  \<^verbatim>\<open>initialize\<close> has run and after \<^verbatim>\<open>close\<close>, together with the JSON
  file at its path. A file database writes the collections to the file after every
  insertion and reads them back in \<^verbatim>\<open>initialize\<close>. \<^verbatim>\<open>JSON.stringify\<close> writes
  a \<^verbatim>\<open>Date\<close> as its ISO string and \<^verbatim>\<open>JSON.parse\<close> returns that string: a field
  typed \<^verbatim>\<open>Date\<close> holds a \<^verbatim>\<open>Date\<close> object in a record inserted since
  \<^verbatim>\<open>initialize\<close>, and a string in a record that was read back from the file. A
  stored record therefore carries how its date fields are held. Numbers are finite, so
  that they survive the file unchanged; the default data is empty, as it is when the
  module is loaded; the identifier that \<^verbatim>\<open>generateId\<close> draws from the clock and the
  random generator is a parameter.
\<close>

datatype error = DatabaseNotInitialized

datatype DateHeld = AsDate | AsIsoString

record DatabaseSchema =
  insider_transactions :: "(DateHeld \<times> InsiderTransaction) list"
  congress_transactions :: "(DateHeld \<times> CongressTransaction) list"
  institutional_holdings :: "(DateHeld \<times> InstitutionalHolding) list"
  convergence_signals :: "ConvergenceSignal list"

record Database =
  data :: "DatabaseSchema option"
  dbPath :: string
  jsonFile :: "DatabaseSchema option"

definition defaultData :: DatabaseSchema where
  "defaultData =
     \<lparr> insider_transactions = [], congress_transactions = [], institutional_holdings = [],
       convergence_signals = [] \<rparr>"

text \<open>What \<^verbatim>\<open>JSON.parse\<close> returns for the text that \<^verbatim>\<open>JSON.stringify\<close> wrote.\<close>

definition readBack :: "DatabaseSchema \<Rightarrow> DatabaseSchema" where
  "readBack d =
     d \<lparr> insider_transactions := map (\<lambda>r. (AsIsoString, snd r)) (insider_transactions d),
         congress_transactions := map (\<lambda>r. (AsIsoString, snd r)) (congress_transactions d),
         institutional_holdings := map (\<lambda>r. (AsIsoString, snd r)) (institutional_holdings d) \<rparr>"

definition initialize :: "Database \<Rightarrow> Database" where
  "initialize db =
     (if dbPath db = '':memory:'' then db \<lparr> data := Some defaultData \<rparr>
      else case jsonFile db of
             Some written \<Rightarrow> db \<lparr> data := Some (readBack written) \<rparr>
           | None \<Rightarrow> db \<lparr> data := Some defaultData \<rparr>)"

definition close :: "Database \<Rightarrow> Database" where
  "close db =
     (if data db \<noteq> None \<and> dbPath db \<noteq> '':memory:''
      then db \<lparr> jsonFile := data db, data := None \<rparr>
      else db \<lparr> data := None \<rparr>)"

text \<open>\<^verbatim>\<open>if (this.dbPath !== ':memory:') await this.db.write()\<close>, after an insertion.\<close>

definition writeThrough :: "Database \<Rightarrow> Database" where
  "writeThrough db = (if dbPath db \<noteq> '':memory:'' then db \<lparr> jsonFile := data db \<rparr> else db)"

text \<open>A date field in a template string: the object prints itself, the string is copied.\<close>

fun heldDate :: "DateHeld \<Rightarrow> int \<Rightarrow> string" where
  "heldDate AsDate t = dateToString t"
| "heldDate AsIsoString t = toISOString t"

definition getTransactionKey ::
  "(jsnum \<Rightarrow> string) \<Rightarrow> DateHeld \<times> InsiderTransaction \<Rightarrow> string" where
  "getTransactionKey numberToString r =
     (let tx = snd r
      in i_ticker tx @ ''-'' @ insiderName tx @ ''-'' @
         heldDate (fst r) (i_transactionDate tx) @ ''-'' @ numberToString (i_shares tx))"

definition getCongressKey ::
  "(jsnum \<Rightarrow> string) \<Rightarrow> DateHeld \<times> CongressTransaction \<Rightarrow> string" where
  "getCongressKey numberToString r =
     (let tx = snd r
      in c_ticker tx @ ''-'' @ memberName tx @ ''-'' @
         heldDate (fst r) (c_transactionDate tx) @ ''-'' @
         numberToString (fst (amountRange tx)))"

definition getHoldingKey :: "DateHeld \<times> InstitutionalHolding \<Rightarrow> string" where
  "getHoldingKey r =
     (let h = snd r
      in h_ticker h @ ''-'' @ institutionCIK h @ ''-'' @ heldDate (fst r) (reportDate h))"

text \<open>
  The three insertions. The event handed in holds \<^verbatim>\<open>Date\<close> objects, and so does the
  copy of it that is stored.
\<close>

definition saveInsiderTransaction ::
  "(jsnum \<Rightarrow> string) \<Rightarrow> string \<Rightarrow> Database \<Rightarrow> InsiderTransaction \<Rightarrow> error + Database" where
  "saveInsiderTransaction numberToString newId db transaction =
     (case data db of
        None \<Rightarrow> Inl DatabaseNotInitialized
      | Some d \<Rightarrow>
          (let key = getTransactionKey numberToString (AsDate, transaction);
               exists = list_ex (\<lambda>tx. getTransactionKey numberToString tx = key)
                          (insider_transactions d)
           in if \<not> exists
              then Inr (writeThrough (db \<lparr> data := Some (d \<lparr> insider_transactions :=
                     insider_transactions d @
                       [(AsDate, transaction \<lparr> i_id := Some newId \<rparr>)] \<rparr>) \<rparr>))
              else Inr db))"

definition saveCongressTransaction ::
  "(jsnum \<Rightarrow> string) \<Rightarrow> string \<Rightarrow> Database \<Rightarrow> CongressTransaction \<Rightarrow> error + Database" where
  "saveCongressTransaction numberToString newId db transaction =
     (case data db of
        None \<Rightarrow> Inl DatabaseNotInitialized
      | Some d \<Rightarrow>
          (let key = getCongressKey numberToString (AsDate, transaction);
               exists = list_ex (\<lambda>tx. getCongressKey numberToString tx = key)
                          (congress_transactions d)
           in if \<not> exists
              then Inr (writeThrough (db \<lparr> data := Some (d \<lparr> congress_transactions :=
                     congress_transactions d @
                       [(AsDate, transaction \<lparr> c_id := Some newId \<rparr>)] \<rparr>) \<rparr>))
              else Inr db))"

definition saveInstitutionalHolding ::
  "string \<Rightarrow> Database \<Rightarrow> InstitutionalHolding \<Rightarrow> error + Database" where
  "saveInstitutionalHolding newId db holding =
     (case data db of
        None \<Rightarrow> Inl DatabaseNotInitialized
      | Some d \<Rightarrow>
          (let key = getHoldingKey (AsDate, holding);
               exists = list_ex (\<lambda>h. getHoldingKey h = key) (institutional_holdings d)
           in if \<not> exists
              then Inr (writeThrough (db \<lparr> data := Some (d \<lparr> institutional_holdings :=
                     institutional_holdings d @
                       [(AsDate, holding \<lparr> h_id := Some newId \<rparr>)] \<rparr>) \<rparr>))
              else Inr db))"

text \<open>
  \<^verbatim>\<open>getConvergenceSignals\<close>: the stored signals dated on or after the cutoff,
  \<open>lookbackDays\<close> calendar days before the clock's \<open>now\<close>.
\<close>

definition getConvergenceSignals ::
  "int \<Rightarrow> Database \<Rightarrow> int \<Rightarrow> error + ConvergenceSignal list" where
  "getConvergenceSignals now db lookback =
     (case data db of
        None \<Rightarrow> Inl DatabaseNotInitialized
      | Some d \<Rightarrow>
          (let cutoffDate = now - lookback * msPerDay
           in Inr (filter (\<lambda>s. s_date s \<ge> cutoffDate) (convergence_signals d))))"

text \<open>The number of stored records that carry a key.\<close>

definition storedWithKey :: "('a \<Rightarrow> string) \<Rightarrow> string \<Rightarrow> 'a list \<Rightarrow> nat" where
  "storedWithKey keyOf k xs = length (filter (\<lambda>x. keyOf x = k) xs)"

section \<open>Backtesting simulator\<close>

text \<open>
  \<^verbatim>\<open>generateSignalsForPeriod\<close>: without a database there are no signals; with one,
  the stored signals of the last \<open>daysDiff\<close> days before \<open>now\<close>, where
  \<open>daysDiff\<close> is the length of the window in days, rounded up.
\<close>

definition generateSignalsForPeriod ::
  "Database option \<Rightarrow> int \<Rightarrow> int \<Rightarrow> int \<Rightarrow> error + ConvergenceSignal list" where
  "generateSignalsForPeriod db now start end' =
     (case db of
        None \<Rightarrow> Inr []
      | Some d \<Rightarrow> (let daysDiff = - ((start - end') div msPerDay)
                  in getConvergenceSignals now d daysDiff))"

definition getPriceOnDate :: "HistoricalPrice list \<Rightarrow> int \<Rightarrow> HistoricalPrice option" where
  "getPriceOnDate prices target =
     (case find (\<lambda>p. hp_date p \<ge> target) prices of
        Some p \<Rightarrow> Some p
      | None \<Rightarrow> (if prices = [] then None else Some (last prices)))"

record Position =
  p_signal :: ConvergenceSignal
  p_entryDate :: DateRef
  p_entryPrice :: jsnum
  p_shares :: jsnum

text \<open>
  The table of open positions is a \<^verbatim>\<open>Map\<close>: an association list in insertion
  order, where setting a key that is present replaces its value in place.
\<close>

type_synonym PositionTable = "(string \<times> Position) list"

definition mapHas :: "string \<Rightarrow> PositionTable \<Rightarrow> bool" where
  "mapHas k m = (map_of m k \<noteq> None)"

definition mapSet :: "string \<Rightarrow> Position \<Rightarrow> PositionTable \<Rightarrow> PositionTable" where
  "mapSet k v m =
     (if mapHas k m then map (\<lambda>e. if fst e = k then (k, v) else e) m else m @ [(k, v)])"

definition mapDelete :: "string \<Rightarrow> PositionTable \<Rightarrow> PositionTable" where
  "mapDelete k m = filter (\<lambda>e. fst e \<noteq> k) m"

record SimState =
  st_trades :: "BacktestTrade list"
  capital :: jsnum
  maxCapital :: jsnum
  st_maxDrawdown :: jsnum
  st_maxDrawdownDate :: "int option"
  openPositions :: PositionTable

text \<open>Reading a stored date reads the loop's date object, whatever day it has reached.\<close>

fun deref :: "int \<Rightarrow> DateRef \<Rightarrow> int" where
  "deref currentDate CurrentDateObject = currentDate"

text \<open>\<^verbatim>\<open>toDateString\<close> of two dates agree: the same calendar day.\<close>

definition sameDay :: "int \<Rightarrow> int \<Rightarrow> bool" where
  "sameDay a b = (a div msPerDay = b div msPerDay)"

text \<open>\<^verbatim>\<open>xs.slice(0, n)\<close>: a negative \<open>n\<close> counts from the end.\<close>

definition sliceFromStart :: "int \<Rightarrow> 'a list \<Rightarrow> 'a list" where
  "sliceFromStart n xs =
     (if n < 0 then take (nat (int (length xs) + n)) xs else take (nat n) xs)"

text \<open>The body of the loop that opens positions, for one signal of the day.\<close>

definition openPosition ::
  "PriceSource \<Rightarrow> BacktestConfig \<Rightarrow> int \<Rightarrow> SimState \<Rightarrow> ConvergenceSignal \<Rightarrow> SimState" where
  "openPosition loadHistoricalPrices cfg currentDate st signal =
     (let prices = loadHistoricalPrices (s_ticker signal) currentDate
                     (endDate cfg + holdingPeriodDays cfg * 24 * 60 * 60 * 1000)
      in case getPriceOnDate prices currentDate of
           None \<Rightarrow> st
         | Some entryPrice \<Rightarrow>
             if jsgt (capital st) (Fin 0) then
               (let positionSize =
                      jsdiv (capital st)
                        (Fin (of_int (maxPositions cfg - int (length (openPositions st)))));
                    shares = jsfloor (jsdiv positionSize (hp_close entryPrice))
                in if jsgt shares (Fin 0) then
                     st \<lparr> openPositions :=
                            mapSet (s_ticker signal)
                              \<lparr> p_signal = signal, p_entryDate = CurrentDateObject,
                                p_entryPrice = hp_close entryPrice, p_shares = shares \<rparr>
                              (openPositions st),
                          capital := jssub (capital st) (jsmul shares (hp_close entryPrice)) \<rparr>
                   else st)
             else st)"

definition openPositionsForDay ::
  "PriceSource \<Rightarrow> BacktestConfig \<Rightarrow> ConvergenceSignal list \<Rightarrow> int \<Rightarrow> SimState \<Rightarrow> SimState" where
  "openPositionsForDay loadHistoricalPrices cfg qualifiedSignals currentDate st =
     (let daySignals =
            filter (\<lambda>s. sameDay (s_date s) currentDate \<and> \<not> mapHas (s_ticker s) (openPositions st))
              qualifiedSignals
      in foldl (openPosition loadHistoricalPrices cfg currentDate) st
           (sliceFromStart (maxPositions cfg - int (length (openPositions st))) daySignals))"

definition returnPercentOf :: "jsnum \<Rightarrow> jsnum \<Rightarrow> jsnum" where
  "returnPercentOf currentClose entryPrice =
     jsmul (jsdiv (jssub currentClose entryPrice) entryPrice) (Fin 100)"

definition stopLossHit :: "BacktestConfig \<Rightarrow> jsnum \<Rightarrow> bool" where
  "stopLossHit cfg ret =
     (case stopLoss cfg of None \<Rightarrow> False | Some sl \<Rightarrow> truthy sl \<and> jsle ret (jsneg sl))"

definition takeProfitHit :: "BacktestConfig \<Rightarrow> jsnum \<Rightarrow> bool" where
  "takeProfitHit cfg ret =
     (case takeProfit cfg of None \<Rightarrow> False | Some tp \<Rightarrow> truthy tp \<and> jsge ret tp)"

text \<open>
  The four checks of an open position, in the order of the source: each one that holds
  sets the flag and overwrites the reason.
\<close>

definition exitDecision ::
  "BacktestConfig \<Rightarrow> jsnum \<Rightarrow> int \<Rightarrow> int \<Rightarrow> bool \<times> ExitReason" where
  "exitDecision cfg ret daysSinceEntry currentDate =
     (let d0 = (False, holding_period);
          d1 = (if stopLossHit cfg ret then (True, stop_loss) else d0);
          d2 = (if takeProfitHit cfg ret then (True, take_profit) else d1);
          d3 = (if daysSinceEntry \<ge> holdingPeriodDays cfg then (True, holding_period) else d2);
          d4 = (if currentDate \<ge> endDate cfg then (True, end_of_test) else d3)
      in d4)"

text \<open>The body of the loop over the open positions, for one entry of the table.\<close>

definition checkExit ::
  "PriceSource \<Rightarrow> BacktestConfig \<Rightarrow> int \<Rightarrow> SimState \<Rightarrow> string \<times> Position \<Rightarrow> SimState" where
  "checkExit loadHistoricalPrices cfg currentDate st entry =
     (let ticker = fst entry; position = snd entry;
          entryTime = deref currentDate (p_entryDate position);
          daysSinceEntry = (currentDate - entryTime) div msPerDay;
          prices = loadHistoricalPrices ticker entryTime currentDate
      in case getPriceOnDate prices currentDate of
           None \<Rightarrow> st
         | Some currentPrice \<Rightarrow>
             (let ret = returnPercentOf (hp_close currentPrice) (p_entryPrice position);
                  decision = exitDecision cfg ret daysSinceEntry currentDate
              in if fst decision then
                   st \<lparr> st_trades := st_trades st @
                          [\<lparr> t_ticker = ticker, t_entryDate = p_entryDate position,
                             t_entryPrice = p_entryPrice position,
                             t_exitDate = CurrentDateObject,
                             t_exitPrice = hp_close currentPrice,
                             t_shares = p_shares position,
                             positionValue = jsmul (p_shares position) (p_entryPrice position),
                             returnPercent = ret,
                             returnDollars =
                               jsmul (p_shares position)
                                 (jssub (hp_close currentPrice) (p_entryPrice position)),
                             convergenceScoreAtEntry = convergenceScore (p_signal position),
                             holdingDays = daysSinceEntry,
                             exitReason = snd decision \<rparr>],
                        capital := jsadd (capital st) (jsmul (p_shares position) (hp_close currentPrice)),
                        openPositions := mapDelete ticker (openPositions st) \<rparr>
                 else st))"

definition checkExitsForDay :: "PriceSource \<Rightarrow> BacktestConfig \<Rightarrow> int \<Rightarrow> SimState \<Rightarrow> SimState" where
  "checkExitsForDay loadHistoricalPrices cfg currentDate st =
     foldl (checkExit loadHistoricalPrices cfg currentDate) st (openPositions st)"

text \<open>The cost basis of the open positions, as the drawdown tracking sums it.\<close>

definition costBasis :: "PositionTable \<Rightarrow> jsnum" where
  "costBasis m =
     foldl (\<lambda>sum pos. jsadd sum (jsmul (p_shares pos) (p_entryPrice pos))) (Fin 0) (map snd m)"

definition trackDrawdown :: "int \<Rightarrow> SimState \<Rightarrow> SimState" where
  "trackDrawdown currentDate st =
     (let totalValue = jsadd (capital st) (costBasis (openPositions st));
          newMax = jsmax (maxCapital st) totalValue;
          currentDrawdown = jsmul (jsdiv (jssub totalValue newMax) newMax) (Fin 100)
      in if jslt currentDrawdown (st_maxDrawdown st)
         then st \<lparr> maxCapital := newMax, st_maxDrawdown := currentDrawdown,
                   st_maxDrawdownDate := Some currentDate \<rparr>
         else st \<lparr> maxCapital := newMax \<rparr>)"

text \<open>One pass of the day loop: entries, exits, drawdown.\<close>

definition dayStep ::
  "PriceSource \<Rightarrow> BacktestConfig \<Rightarrow> ConvergenceSignal list \<Rightarrow> int \<Rightarrow> SimState \<Rightarrow> SimState" where
  "dayStep loadHistoricalPrices cfg qualifiedSignals currentDate st =
     trackDrawdown currentDate
       (checkExitsForDay loadHistoricalPrices cfg currentDate
          (openPositionsForDay loadHistoricalPrices cfg qualifiedSignals currentDate st))"

function simulate ::
  "PriceSource \<Rightarrow> BacktestConfig \<Rightarrow> ConvergenceSignal list \<Rightarrow> int \<Rightarrow> SimState \<Rightarrow> SimState" where
  "simulate loadHistoricalPrices cfg qualifiedSignals currentDate st =
     (if currentDate \<le> endDate cfg
      then simulate loadHistoricalPrices cfg qualifiedSignals (currentDate + msPerDay)
             (dayStep loadHistoricalPrices cfg qualifiedSignals currentDate st)
      else st)"
  by pat_completeness auto
termination
  by (relation "measure (\<lambda>(l, cfg, q, d, st). nat (endDate cfg - d + 1))")
     (auto simp: msPerDay_def)

declare simulate.simps [simp del]


definition sumOf :: "('a \<Rightarrow> jsnum) \<Rightarrow> 'a list \<Rightarrow> jsnum" where
  "sumOf f xs = foldl (\<lambda>sum t. jsadd sum (f t)) (Fin 0) xs"

definition countOf :: "'a list \<Rightarrow> jsnum" where
  "countOf xs = Fin (of_nat (length xs))"

definition initialState :: "BacktestConfig \<Rightarrow> SimState" where
  "initialState cfg =
     \<lparr> st_trades = [], capital = initialCapital cfg, maxCapital = initialCapital cfg,
       st_maxDrawdown = Fin 0, st_maxDrawdownDate = None, openPositions = [] \<rparr>"

text \<open>The final metrics; the best and the worst trade are left out of the result.\<close>

definition finalMetrics :: "BacktestConfig \<Rightarrow> SimState \<Rightarrow> BacktestResult" where
  "finalMetrics cfg st =
     (let ts = st_trades st;
          winning = filter (\<lambda>t. jsgt (returnPercent t) (Fin 0)) ts;
          losing = filter (\<lambda>t. jsle (returnPercent t) (Fin 0)) ts
      in \<lparr> config = cfg,
           period = Some (startDate cfg, endDate cfg),
           trades = ts,
           totalReturn =
             jsmul (jsdiv (jssub (capital st) (initialCapital cfg)) (initialCapital cfg)) (Fin 100),
           totalReturnDollars = jssub (capital st) (initialCapital cfg),
           finalCapital = capital st,
           winRate = (if length ts > 0 then jsdiv (countOf winning) (countOf ts) else Fin 0),
           avgWin =
             (if length winning > 0 then jsdiv (sumOf returnPercent winning) (countOf winning)
              else Fin 0),
           avgLoss =
             (if length losing > 0 then jsdiv (sumOf returnPercent losing) (countOf losing)
              else Fin 0),
           maxDrawdown = st_maxDrawdown st,
           maxDrawdownDate = st_maxDrawdownDate st,
           totalTrades = length ts,
           winningTrades = length winning,
           losingTrades = length losing,
           avgHoldingPeriod =
             (if length ts > 0
              then jsdiv (sumOf (\<lambda>t. Fin (of_int (holdingDays t))) ts) (countOf ts)
              else Fin 0) \<rparr>)"

definition runBacktest ::
  "Database option \<Rightarrow> int \<Rightarrow> PriceSource \<Rightarrow> BacktestConfig \<Rightarrow> error + BacktestResult" where
  "runBacktest db now loadHistoricalPrices cfg =
     (case generateSignalsForPeriod db now (startDate cfg) (endDate cfg) of
        Inl e \<Rightarrow> Inl e
      | Inr sigs \<Rightarrow>
          (let qualifiedSignals =
                 filter (\<lambda>s. jsge (Fin (convergenceScore s)) (minConvergenceScore cfg)) sigs
           in Inr (finalMetrics cfg
                (simulate loadHistoricalPrices cfg qualifiedSignals (startDate cfg)
                   (initialState cfg)))))"

section \<open>Notions used to state the properties of a run\<close>

text \<open>
  A price source has positive prices when every bar it returns closes at a finite,
  strictly positive price. A state is idle for a configuration when nothing was bought
  or sold: no open position, no trade, the capital untouched.
\<close>

definition positiveClose :: "HistoricalPrice \<Rightarrow> bool" where
  "positiveClose p = (case hp_close p of Fin x \<Rightarrow> 0 < x | _ \<Rightarrow> False)"

definition positivePrices :: "PriceSource \<Rightarrow> bool" where
  "positivePrices loadHistoricalPrices =
     (\<forall>tk a b. list_all positiveClose (loadHistoricalPrices tk a b))"

definition idle :: "BacktestConfig \<Rightarrow> SimState \<Rightarrow> bool" where
  "idle cfg st = (openPositions st = [] \<and> st_trades st = [] \<and> capital st = initialCapital cfg)"





section \<open>Arrival order\<close>

text \<open>
  Two inputs hold the same events when each of their three collections is a permutation
  of the other's. \<open>scoresOf\<close> is a signal without its company name, its date and its
  list of recent buyers. \<open>activityOf\<close> and \<open>tickersOf\<close> describe the grouping by
  ticker: the events of a ticker in each collection, and the tickers that occur.
\<close>

definition sameEvents :: "ConvergenceInput \<Rightarrow> ConvergenceInput \<Rightarrow> bool" where
  "sameEvents a b =
     (mset (insiderTransactions a) = mset (insiderTransactions b) \<and>
      mset (congressTransactions a) = mset (congressTransactions b) \<and>
      mset (institutionalHoldings a) = mset (institutionalHoldings b))"

definition scoresOf ::
  "ConvergenceSignal \<Rightarrow> string \<times> real \<times> real \<times> real \<times> real \<times> real \<times> SignalDetails" where
  "scoresOf s =
     (s_ticker s, convergenceScore s, insiderScore s, congressScore s, institutionalScore s,
      convergenceBonus s, signals s)"

definition activityOf ::
  "InsiderTransaction list \<Rightarrow> CongressTransaction list \<Rightarrow> InstitutionalHolding list \<Rightarrow>
   string \<Rightarrow> TickerActivity" where
  "activityOf is cs hs t =
     \<lparr> insider = filter (\<lambda>x. i_ticker x = t) is,
       congress = filter (\<lambda>x. c_ticker x = t) cs,
       institutional = filter (\<lambda>x. h_ticker x = t) hs \<rparr>"

definition tickersOf ::
  "InsiderTransaction list \<Rightarrow> CongressTransaction list \<Rightarrow> InstitutionalHolding list \<Rightarrow>
   string set" where
  "tickersOf is cs hs = i_ticker ` set is \<union> c_ticker ` set cs \<union> h_ticker ` set hs"

text \<open>The grouping invariant: the table holds exactly the tickers that occur, each with its events.\<close>

definition grouped ::
  "ActivityTable \<Rightarrow> InsiderTransaction list \<Rightarrow> CongressTransaction list \<Rightarrow>
   InstitutionalHolding list \<Rightarrow> bool" where
  "grouped acts is cs hs =
     (set acts = (\<lambda>t. (t, activityOf is cs hs t)) ` tickersOf is cs hs)"

section \<open>Concrete inputs\<close>

text \<open>The result and the two benchmark bars of the repository's own test of \<open>compareToSPY\<close>.\<close>

definition mockConfig :: BacktestConfig where
  "mockConfig =
     \<lparr> startDate = 1704067200000, endDate = 1719705600000, initialCapital = Fin 100000,
       minConvergenceScore = Fin 60, maxPositions = 5, holdingPeriodDays = 30,
       stopLoss = None, takeProfit = None \<rparr>"

definition mockResult :: "jsnum \<Rightarrow> BacktestResult" where
  "mockResult ret =
     \<lparr> config = mockConfig, period = Some (1704067200000, 1719705600000), trades = [],
       totalReturn = ret, totalReturnDollars = Fin 15500, finalCapital = Fin 115500,
       winRate = Fin (6 / 10), avgWin = Fin 8, avgLoss = Fin (- 4), maxDrawdown = Fin (- 5),
       maxDrawdownDate = None, totalTrades = 10, winningTrades = 6, losingTrades = 4,
       avgHoldingPeriod = Fin 25 \<rparr>"

definition bar :: "int \<Rightarrow> real \<Rightarrow> HistoricalPrice" where
  "bar d c =
     \<lparr> hp_date = d, hp_open = Fin c, hp_high = Fin c, hp_low = Fin c, hp_close = Fin c,
       adjustedClose = Fin c, volume = Fin 1000000 \<rparr>"

definition spyTwoBars :: PriceSource where
  "spyTwoBars tk a b = [bar 1704153600000 453, bar 1719532800000 533]"

definition spyOneBar :: PriceSource where
  "spyOneBar tk a b = [bar 1704153600000 453]"

text \<open>
  The scenario of pure convergence: one CEO buy of 2 million dollars, one legislator
  purchase disclosed as 100 to 250 thousand dollars and one institutional increase of
  50 million dollars, on the same ticker.
\<close>

definition insiderBuy ::
  "string \<Rightarrow> string \<Rightarrow> string \<Rightarrow> real \<Rightarrow> real \<Rightarrow> int \<Rightarrow> InsiderTransaction" where
  "insiderBuy tk who title n price d =
     \<lparr> i_id = None, i_ticker = tk, i_companyName = None, insiderName = who,
       insiderTitle = title, insiderCIK = None, i_transactionType = BUY, i_shares = Fin n,
       pricePerShare = Fin price, i_transactionDate = d, i_filingDate = d,
       ownershipType = DIRECT, i_source = SEC_FORM4 \<rparr>"

definition congressPurchase ::
  "string \<Rightarrow> string \<Rightarrow> real \<Rightarrow> real \<Rightarrow> int \<Rightarrow> CongressTransaction" where
  "congressPurchase tk who lo hi d =
     \<lparr> c_id = None, memberName = who, chamber = HOUSE, state = ''CA'', committees = None,
       c_ticker = tk, assetDescription = [], c_transactionType = ''PURCHASE'',
       c_transactionDate = d, disclosureDate = d, amountRange = (Fin lo, Fin hi),
       c_source = STOCK_ACT \<rparr>"

definition holdingIncrease :: "string \<Rightarrow> string \<Rightarrow> real \<Rightarrow> int \<Rightarrow> InstitutionalHolding" where
  "holdingIncrease tk who v d =
     \<lparr> h_id = None, institutionName = who, institutionCIK = ''0001067983'', h_ticker = tk,
       h_companyName = None, cusip = [], h_shares = Fin 1000, h_value = Fin v,
       h_filingDate = d, reportDate = d, changeType = Some INCREASE, changePercent = None,
       previousShares = None, ownershipPercent = None, h_source = SEC_13F \<rparr>"

definition pureConvergence :: ConvergenceInput where
  "pureConvergence =
     \<lparr> insiderTransactions = [insiderBuy ''NVDA'' ''Huang'' ''CEO'' 20000 100 3],
       congressTransactions = [congressPurchase ''NVDA'' ''Pelosi'' 100000 250000 2],
       institutionalHoldings = [holdingIncrease ''NVDA'' ''Berkshire'' 50000000 1],
       lookbackDays = 30 \<rparr>"

definition nvdaActivity :: TickerActivity where
  "nvdaActivity =
     \<lparr> insider = [insiderBuy ''NVDA'' ''Huang'' ''CEO'' 20000 100 3],
       congress = [congressPurchase ''NVDA'' ''Pelosi'' 100000 250000 2],
       institutional = [holdingIncrease ''NVDA'' ''Berkshire'' 50000000 1] \<rparr>"

text \<open>
  Six insider buys of one ticker, dated 1 to 6, in two arrival orders.
\<close>

definition sixBuyList :: "InsiderTransaction list" where
  "sixBuyList =
     [insiderBuy ''ACME'' ''A'' ''Director'' 1000 10 1,
      insiderBuy ''ACME'' ''B'' ''Director'' 1000 10 2,
      insiderBuy ''ACME'' ''C'' ''Director'' 1000 10 3,
      insiderBuy ''ACME'' ''D'' ''Director'' 1000 10 4,
      insiderBuy ''ACME'' ''E'' ''Director'' 1000 10 5,
      insiderBuy ''ACME'' ''F'' ''Director'' 1000 10 6]"

definition sixBuys :: ConvergenceInput where
  "sixBuys =
     \<lparr> insiderTransactions = sixBuyList, congressTransactions = [],
       institutionalHoldings = [], lookbackDays = 30 \<rparr>"

definition sixBuysReversed :: ConvergenceInput where
  "sixBuysReversed =
     \<lparr> insiderTransactions = rev sixBuyList, congressTransactions = [],
       institutionalHoldings = [], lookbackDays = 30 \<rparr>"

text \<open>
  An empty in-memory database, the events of the repository's tests of the database
  (dated 1 January 2024, 00:00 UTC), the printing of a whole number in decimal, and a file
  database that has not been opened yet.
\<close>

definition memoryDb :: Database where
  "memoryDb = \<lparr> data = Some defaultData, dbPath = '':memory:'', jsonFile = None \<rparr>"

definition wholeNumber :: "jsnum \<Rightarrow> string" where
  "wholeNumber x =
     (case x of
        Fin r \<Rightarrow> (if r < 0 then ''-'' else []) @ decimal (nat \<lfloor>\<bar>r\<bar>\<rfloor>)
      | PosInf \<Rightarrow> ''Infinity'' | NegInf \<Rightarrow> ''-Infinity'' | NaN \<Rightarrow> ''NaN'')"

definition fileDb :: Database where
  "fileDb = \<lparr> data = None, dbPath = ''/app/data/investbot.json'', jsonFile = None \<rparr>"

definition timCook :: InsiderTransaction where
  "timCook = insiderBuy ''AAPL'' ''Tim Cook'' ''CEO'' 10000 (361 / 2) 1704067200000"

definition pelosi :: CongressTransaction where
  "pelosi = congressPurchase ''NVDA'' ''Nancy Pelosi'' 250001 500000 1704067200000"

definition berkshire :: InstitutionalHolding where
  "berkshire = holdingIncrease ''AAPL'' ''Berkshire Hathaway'' 164700000000 1704067200000"

text \<open>
  Two runs of the program on the file database: the first opens it, inserts the event and
  closes it; the second opens it again and inserts the same event.
\<close>

definition firstRun :: Database where
  "firstRun =
     close (projr (saveInsiderTransaction wholeNumber ''1-a'' (initialize fileDb) timCook))"

definition secondRun :: Database where
  "secondRun = projr (saveInsiderTransaction wholeNumber ''2-b'' (initialize firstRun) timCook)"

text \<open>The fields of a stored insider record that make up its identity, and how its dates are held.\<close>

definition storedAs ::
  "DateHeld \<times> InsiderTransaction \<Rightarrow> DateHeld \<times> string \<times> string \<times> int \<times> jsnum" where
  "storedAs r =
     (fst r, i_ticker (snd r), insiderName (snd r), i_transactionDate (snd r), i_shares (snd r))"

text \<open>
  A two-day window with one qualifying signal on its first day, stored in the database,
  and two price series for every ticker and range: one that falls from 100 to 79, one
  that rises from 100 to 110.
\<close>

definition acmeSignal :: ConvergenceSignal where
  "acmeSignal =
     \<lparr> s_ticker = ''ACME'', s_companyName = None, s_date = 0, convergenceScore = 80,
       insiderScore = 90, congressScore = 75, institutionalScore = 80, convergenceBonus = 15,
       signals = \<lparr> insiderBuys = 3, congressBuys = 2, institutionalIncreases = 5 \<rparr>,
       recentBuyers = [] \<rparr>"

definition signalDb :: Database where
  "signalDb =
     \<lparr> data = Some (defaultData \<lparr> convergence_signals := [acmeSignal] \<rparr>),
       dbPath = '':memory:'', jsonFile = None \<rparr>"

definition twoDayConfig :: BacktestConfig where
  "twoDayConfig =
     \<lparr> startDate = 0, endDate = 86400000, initialCapital = Fin 10000,
       minConvergenceScore = Fin 50, maxPositions = 1, holdingPeriodDays = 30,
       stopLoss = Some (Fin 20), takeProfit = None \<rparr>"

definition fallingPrices :: PriceSource where
  "fallingPrices tk a b = [bar 0 100, bar 86400000 79]"


text \<open>The position that the signal opens on the first day: 100 shares at 100.\<close>

definition heldPosition :: PositionTable where
  "heldPosition =
     [(''ACME'', \<lparr> p_signal = acmeSignal, p_entryDate = CurrentDateObject,
                  p_entryPrice = Fin 100, p_shares = Fin 100 \<rparr>)]"





definition noCapital :: BacktestConfig where
  "noCapital = twoDayConfig \<lparr> initialCapital := Fin 0 \<rparr>"

chapter \<open>Properties\<close>

section \<open>Properties of the benchmark comparison\<close>

lemma compareToSPY_few:
  assumes "length (benchmarkPoints src r) < 2"
  shows "compareToSPY src r = degenerateComparison r"
  using assms
  by (auto simp: compareToSPY_def benchmarkPoints_def Let_def split: option.splits)

lemma compareToSPY_many:
  assumes "2 \<le> length (benchmarkPoints src r)"
  shows "spyReturn (compareToSPY src r) =
           jsmul (jsdiv (jssub (hp_close (last (benchmarkPoints src r)))
                               (hp_close (hd (benchmarkPoints src r))))
                        (hp_close (hd (benchmarkPoints src r)))) (Fin 100)"
    and "alpha (compareToSPY src r) = jssub (totalReturn r) (spyReturn (compareToSPY src r))"
proof -
  obtain a b where p: "period r = Some (a, b)"
    using assms by (cases "period r") (auto simp: benchmarkPoints_def)
  let ?ps = "src ''SPY'' a b"
  have len: "\<not> length ?ps < 2" and ne: "?ps \<noteq> []"
    using assms p by (auto simp: benchmarkPoints_def)
  have h: "?ps ! 0 = hd ?ps" and l: "?ps ! (length ?ps - 1) = last ?ps"
    using ne by (simp_all add: hd_conv_nth last_conv_nth)
  show "spyReturn (compareToSPY src r) =
           jsmul (jsdiv (jssub (hp_close (last (benchmarkPoints src r)))
                               (hp_close (hd (benchmarkPoints src r))))
                        (hp_close (hd (benchmarkPoints src r)))) (Fin 100)"
    using p len h l by (simp add: compareToSPY_def benchmarkPoints_def Let_def)
  show "alpha (compareToSPY src r) = jssub (totalReturn r) (spyReturn (compareToSPY src r))"
    using p len by (simp add: compareToSPY_def Let_def)
qed

text \<open>
  Claim C9. With fewer than two benchmark price points the comparison reports a benchmark
  return of 0 and an alpha equal to the strategy's total return (the function is total:
  no error is raised). With two or more points the benchmark return is
  (end price - start price) / start price, as a percentage, over the closes of the first
  and the last bar, and alpha is the strategy return minus the benchmark return; for
  finite prices with a non-zero start price this is the real-number formula.
\<close>

theorem benchmark_return_and_alpha:
  "(length (benchmarkPoints src r) < 2 \<longrightarrow>
      spyReturn (compareToSPY src r) = Fin 0 \<and>
      alpha (compareToSPY src r) = totalReturn r) \<and>
   (2 \<le> length (benchmarkPoints src r) \<longrightarrow>
      spyReturn (compareToSPY src r) =
        jsmul (jsdiv (jssub (hp_close (last (benchmarkPoints src r)))
                            (hp_close (hd (benchmarkPoints src r))))
                     (hp_close (hd (benchmarkPoints src r)))) (Fin 100) \<and>
      alpha (compareToSPY src r) = jssub (totalReturn r) (spyReturn (compareToSPY src r)) \<and>
      (\<forall>s e t. hp_close (hd (benchmarkPoints src r)) = Fin s \<and> s \<noteq> 0 \<and>
               hp_close (last (benchmarkPoints src r)) = Fin e \<and> totalReturn r = Fin t \<longrightarrow>
         spyReturn (compareToSPY src r) = Fin ((e - s) / s * 100) \<and>
         alpha (compareToSPY src r) = Fin (t - (e - s) / s * 100)))"
proof -
  have few: "spyReturn (compareToSPY src r) = Fin 0 \<and> alpha (compareToSPY src r) = totalReturn r"
    if "length (benchmarkPoints src r) < 2"
    by (simp add: compareToSPY_few [OF that] degenerateComparison_def)
  have fin: "spyReturn (compareToSPY src r) = Fin ((e - s) / s * 100) \<and>
             alpha (compareToSPY src r) = Fin (t - (e - s) / s * 100)"
    if many: "2 \<le> length (benchmarkPoints src r)"
      and "hp_close (hd (benchmarkPoints src r)) = Fin s \<and> s \<noteq> 0 \<and>
           hp_close (last (benchmarkPoints src r)) = Fin e \<and> totalReturn r = Fin t"
    for s e t
  proof -
    have sr: "spyReturn (compareToSPY src r) = Fin ((e - s) / s * 100)"
      using that(2) by (simp add: compareToSPY_many(1) [OF many] jssub_def)
    show ?thesis
      using that(2) sr by (simp add: compareToSPY_many(2) [OF many] jssub_def)
  qed
  show ?thesis
    using few fin compareToSPY_many by blast
qed

theorem benchmark_return_and_alpha_witness:
  "length (benchmarkPoints spyOneBar (mockResult (Fin (31 / 2)))) < 2 \<and>
   spyReturn (compareToSPY spyOneBar (mockResult (Fin (31 / 2)))) = Fin 0 \<and>
   alpha (compareToSPY spyOneBar (mockResult (Fin (31 / 2)))) = Fin (31 / 2) \<and>
   2 \<le> length (benchmarkPoints spyTwoBars (mockResult (Fin (31 / 2)))) \<and>
   spyReturn (compareToSPY spyTwoBars (mockResult (Fin (31 / 2)))) = Fin (8000 / 453) \<and>
   alpha (compareToSPY spyTwoBars (mockResult (Fin (31 / 2)))) = Fin (31 / 2 - 8000 / 453)"
  using benchmark_return_and_alpha [of spyOneBar "mockResult (Fin (31 / 2))"]
    benchmark_return_and_alpha [of spyTwoBars "mockResult (Fin (31 / 2))"]
  by (simp add: benchmarkPoints_def spyOneBar_def spyTwoBars_def mockResult_def bar_def jssub_def)

text \<open>
  Claim C10. In the degenerate cases (the result has no period, or fewer than two benchmark
  price points are available) the \<open>outperformed\<close> flag is true whatever the strategy
  returned; there is a result with a strictly negative total return and an undefined
  benchmark that is still reported as having outperformed.
\<close>

theorem degenerate_benchmark_outperformed:
  "(period r = None \<longrightarrow> outperformed (compareToSPY src r)) \<and>
   (length (benchmarkPoints src r) < 2 \<longrightarrow> outperformed (compareToSPY src r)) \<and>
   (\<exists>r' src'. jslt (totalReturn r') (Fin 0) \<and> length (benchmarkPoints src' r') < 2 \<and>
      outperformed (compareToSPY src' r'))"
proof (intro conjI)
  show "period r = None \<longrightarrow> outperformed (compareToSPY src r)"
    by (simp add: compareToSPY_def degenerateComparison_def)
  show "length (benchmarkPoints src r) < 2 \<longrightarrow> outperformed (compareToSPY src r)"
    by (simp add: compareToSPY_few degenerateComparison_def)
  have "jslt (totalReturn (mockResult (Fin (- 3)))) (Fin 0)"
    by (simp add: mockResult_def)
  moreover have few: "length (benchmarkPoints spyOneBar (mockResult (Fin (- 3)))) < 2"
    by (simp add: benchmarkPoints_def spyOneBar_def mockResult_def)
  moreover have "outperformed (compareToSPY spyOneBar (mockResult (Fin (- 3))))"
    by (simp add: compareToSPY_few [OF few] degenerateComparison_def)
  ultimately show "\<exists>r' src'. jslt (totalReturn r') (Fin 0) \<and>
      length (benchmarkPoints src' r') < 2 \<and> outperformed (compareToSPY src' r')"
    by blast
qed

theorem degenerate_benchmark_outperformed_witness:
  "jslt (totalReturn (mockResult (Fin (- 3)))) (Fin 0) \<and>
   length (benchmarkPoints spyOneBar (mockResult (Fin (- 3)))) < 2 \<and>
   outperformed (compareToSPY spyOneBar (mockResult (Fin (- 3)))) \<and>
   period ((mockResult (Fin (- 3))) \<lparr> period := None \<rparr>) = None \<and>
   outperformed (compareToSPY spyTwoBars ((mockResult (Fin (- 3))) \<lparr> period := None \<rparr>))"
  using degenerate_benchmark_outperformed [of "mockResult (Fin (- 3))" spyOneBar]
    degenerate_benchmark_outperformed
      [of "(mockResult (Fin (- 3))) \<lparr> period := None \<rparr>" spyTwoBars]
  by (simp add: benchmarkPoints_def spyOneBar_def mockResult_def)

section \<open>Properties of the weight calculator\<close>



lemma insiderSizeMultiplier_pos: "0 < insiderSizeMultiplier v"
  by (simp add: insiderSizeMultiplier_def TRANSACTION_SIZE_MULTIPLIERS_def)

lemma titleStep_ge: "b \<le> titleStep u b e"
  by (simp add: titleStep_def)

lemma foldl_titleStep_ge: "b \<le> foldl (titleStep u) b tbl"
proof (induction tbl arbitrary: b)
  case Nil
  show ?case by simp
next
  case (Cons e tbl)
  have "b \<le> titleStep u b e" by (rule titleStep_ge)
  also have "\<dots> \<le> foldl (titleStep u) (titleStep u b e) tbl" by (rule Cons.IH)
  finally show ?case by simp
qed

lemma foldl_titleStep_le:
  "b \<le> m \<Longrightarrow> list_all (\<lambda>e. snd e \<le> m) tbl \<Longrightarrow> foldl (titleStep u) b tbl \<le> m"
  by (induction tbl arbitrary: b) (auto simp: titleStep_def)

lemma foldl_titleStep_hit:
  "e \<in> set tbl \<Longrightarrow> str_includes u (toUpperCase (fst e)) \<Longrightarrow> snd e \<le> foldl (titleStep u) b tbl"
proof (induction tbl arbitrary: b)
  case Nil
  then show ?case by simp
next
  case (Cons x tbl)
  show ?case
  proof (cases "x = e")
    case True
    have "snd e \<le> titleStep u b e" using Cons.prems(2) by (simp add: titleStep_def)
    also have "\<dots> \<le> foldl (titleStep u) (titleStep u b e) tbl" by (rule foldl_titleStep_ge)
    finally show ?thesis using True by simp
  next
    case False
    then show ?thesis using Cons by auto
  qed
qed

lemma insiderBaseWeight_le: "insiderBaseWeight t \<le> 10"
  unfolding insiderBaseWeight_def
  by (rule foldl_titleStep_le) (simp_all add: INSIDER_WEIGHTS_def)

lemma insiderBaseWeight_ge: "3 \<le> insiderBaseWeight t"
  unfolding insiderBaseWeight_def by (rule foldl_titleStep_ge)

lemma insiderBaseWeight_CEO:
  assumes "str_includes (toUpperCase t) ''CEO''"
  shows "insiderBaseWeight t = 10"
proof -
  have "(''CEO'', 10) \<in> set INSIDER_WEIGHTS" by (simp add: INSIDER_WEIGHTS_def)
  then have "snd (''CEO'', 10::real) \<le> insiderBaseWeight t"
    unfolding insiderBaseWeight_def using assms
    by (intro foldl_titleStep_hit) (simp_all add: toUpperCase_def lowerLetters_def upperLetters_def)
  then show ?thesis using insiderBaseWeight_le [of t] by simp
qed

lemma insiderBaseWeight_Director: "insiderBaseWeight ''Director'' = 5"
  by (simp add: insiderBaseWeight_def INSIDER_WEIGHTS_def titleStep_def toUpperCase_def
      lowerLetters_def upperLetters_def)









section \<open>Properties of the convergence detector\<close>

lemma calculateInsiderWeight_nonneg: "0 \<le> calculateInsiderWeight i"
proof -
  have "0 \<le> insiderBaseWeight (wi_insiderTitle i)"
    using insiderBaseWeight_ge [of "wi_insiderTitle i"] by simp
  moreover have "0 \<le> insiderSizeMultiplier v" for v
    using insiderSizeMultiplier_pos [of v] by simp
  ultimately show ?thesis
    by (simp add: calculateInsiderWeight_def Let_def)
qed

lemma foldl_committeeStep_ge: "b \<le> foldl (committeeStep c) b tbl"
proof (induction tbl arbitrary: b)
  case Nil
  show ?case by simp
next
  case (Cons e tbl)
  have "b \<le> committeeStep c b e" by (simp add: committeeStep_def)
  also have "\<dots> \<le> foldl (committeeStep c) (committeeStep c b e) tbl" by (rule Cons.IH)
  finally show ?case by simp
qed

lemma foldl_committees_ge:
  "b \<le> foldl (\<lambda>bonus committee. foldl (committeeStep committee) bonus tbl) b cs"
proof (induction cs arbitrary: b)
  case Nil
  show ?case by simp
next
  case (Cons c cs)
  have "b \<le> foldl (committeeStep c) b tbl" by (rule foldl_committeeStep_ge)
  also have "\<dots> \<le> foldl (\<lambda>bonus committee. foldl (committeeStep committee) bonus tbl)
                      (foldl (committeeStep c) b tbl) cs"
    by (rule Cons.IH)
  finally show ?case by simp
qed

lemma committeeBonusOf_nonneg: "0 \<le> committeeBonusOf cs"
  unfolding committeeBonusOf_def by (rule foldl_committees_ge)

lemma calculateCongressWeight_nonneg: "0 \<le> calculateCongressWeight i"
  using committeeBonusOf_nonneg [of "case wc_committees i of None \<Rightarrow> [] | Some l \<Rightarrow> l"]
  by (simp add: calculateCongressWeight_def Let_def)

lemma calculateInstitutionalWeight_nonneg: "0 \<le> calculateInstitutionalWeight h"
  by (simp add: calculateInstitutionalWeight_def Let_def split: option.splits)

lemma sum_list_map_nonneg: "(\<And>x. 0 \<le> f x) \<Longrightarrow> (0::real) \<le> sum_list (map f xs)"
  by (induction xs) simp_all

lemma normalized_bounds: "0 \<le> x \<Longrightarrow> 0 \<le> normalized x \<and> normalized x \<le> 100"
  by (simp add: normalized_def)

lemma insiderSum_nonneg: "0 \<le> insiderSum a"
  unfolding insiderSum_def insiderWeightOf_def
  by (rule sum_list_map_nonneg) (rule calculateInsiderWeight_nonneg)

lemma congressSum_nonneg: "0 \<le> congressSum a"
  unfolding congressSum_def congressWeightOf_def
  by (rule sum_list_map_nonneg) (rule calculateCongressWeight_nonneg)

lemma institutionalSum_nonneg: "0 \<le> institutionalSum a"
  unfolding institutionalSum_def
  by (rule sum_list_map_nonneg) (rule calculateInstitutionalWeight_nonneg)

lemma bonusOf_nonneg: "0 \<le> bonusOf n"
  by (simp add: bonusOf_def)

lemma overallScore_bounds:
  assumes "0 \<le> i" "0 \<le> c" "0 \<le> h" "0 \<le> b"
  shows "0 \<le> overallScore i c h b n \<and> overallScore i c h b n \<le> 100"
proof -
  have "0 \<le> i * (35 / 100) + c * (3 / 10) + h * (25 / 100) + b"
    using assms by simp
  then have "0 \<le> (i * (35 / 100) + c * (3 / 10) + h * (25 / 100) + b) *
             (if n \<ge> 2 then 12 / 10 else 1)"
    by (intro mult_nonneg_nonneg) simp_all
  then show ?thesis by (simp add: overallScore_def)
qed

lemma overallScore_by_bonus:
  "overallScore i c h (bonusOf n) n = scoreOfCategoriesAndBonus i c h (bonusOf n)"
  by (simp add: overallScore_def scoreOfCategoriesAndBonus_def bonusOf_def)

lemma tickerSignal_bounds:
  "0 \<le> insiderScore (tickerSignal now e) \<and> insiderScore (tickerSignal now e) \<le> 100 \<and>
   0 \<le> congressScore (tickerSignal now e) \<and> congressScore (tickerSignal now e) \<le> 100 \<and>
   0 \<le> institutionalScore (tickerSignal now e) \<and>
   institutionalScore (tickerSignal now e) \<le> 100 \<and>
   0 \<le> convergenceScore (tickerSignal now e) \<and> convergenceScore (tickerSignal now e) \<le> 100"
  using normalized_bounds [OF insiderSum_nonneg, of "snd e"]
    normalized_bounds [OF congressSum_nonneg, of "snd e"]
    normalized_bounds [OF institutionalSum_nonneg, of "snd e"]
    overallScore_bounds [of "normalized (insiderSum (snd e))" "normalized (congressSum (snd e))"
      "normalized (institutionalSum (snd e))" "bonusOf (activeCategoriesOf (snd e))"
      "activeCategoriesOf (snd e)"]
    bonusOf_nonneg [of "activeCategoriesOf (snd e)"]
  by (simp add: tickerSignal_def)

lemma tickerSignal_function_of_scores:
  "convergenceScore (tickerSignal now e) =
     scoreOfCategoriesAndBonus (insiderScore (tickerSignal now e))
       (congressScore (tickerSignal now e)) (institutionalScore (tickerSignal now e))
       (convergenceBonus (tickerSignal now e))"
  by (simp add: tickerSignal_def overallScore_by_bonus)

lemma detectConvergence_signals:
  "s \<in> set (detectConvergence now input) \<Longrightarrow> \<exists>e. s = tickerSignal now e"
  by (auto simp: detectConvergence_def)

text \<open>
  Claim C4. For every input, each of the three normalized category scores and the overall
  score of every emitted signal lies between 0 and 100, and the overall score is the
  function \<open>scoreOfCategoriesAndBonus\<close> of the three category scores and the bonus.
\<close>

theorem detector_scores_bounded:
  "\<forall>s \<in> set (detectConvergence now input).
     0 \<le> insiderScore s \<and> insiderScore s \<le> 100 \<and>
     0 \<le> congressScore s \<and> congressScore s \<le> 100 \<and>
     0 \<le> institutionalScore s \<and> institutionalScore s \<le> 100 \<and>
     0 \<le> convergenceScore s \<and> convergenceScore s \<le> 100 \<and>
     convergenceScore s =
       scoreOfCategoriesAndBonus (insiderScore s) (congressScore s) (institutionalScore s)
         (convergenceBonus s)"
proof
  fix s
  assume "s \<in> set (detectConvergence now input)"
  then obtain e where s: "s = tickerSignal now e"
    using detectConvergence_signals by blast
  show "0 \<le> insiderScore s \<and> insiderScore s \<le> 100 \<and>
     0 \<le> congressScore s \<and> congressScore s \<le> 100 \<and>
     0 \<le> institutionalScore s \<and> institutionalScore s \<le> 100 \<and>
     0 \<le> convergenceScore s \<and> convergenceScore s \<le> 100 \<and>
     convergenceScore s =
       scoreOfCategoriesAndBonus (insiderScore s) (congressScore s) (institutionalScore s)
         (convergenceBonus s)"
    unfolding s
    using tickerSignal_bounds [of now e] tickerSignal_function_of_scores [of now e]
    by blast
qed

lemma toUpperCase_CEO: "toUpperCase ''CEO'' = ''CEO''"
  by (simp add: toUpperCase_def lowerLetters_def upperLetters_def)

lemma insiderBaseWeight_CEO_exact: "insiderBaseWeight ''CEO'' = 10"
  by (rule insiderBaseWeight_CEO) (simp add: toUpperCase_CEO)

lemma groupByTicker_pureConvergence:
  "objectEntries (groupByTicker pureConvergence) = [(''NVDA'', nvdaActivity)]"
  by (simp add: groupByTicker_def pureConvergence_def addInsider_def addCongress_def
      addHolding_def ensureTicker_def updateEntry_def emptyActivity_def objectEntries_def
      isArrayIndex_def digits_def insiderBuy_def congressPurchase_def holdingIncrease_def
      nvdaActivity_def)

lemma nvda_sums:
  "insiderSum nvdaActivity = 45" "congressSum nvdaActivity = 45 / 4"
  "institutionalSum nvdaActivity = 45 / 4" "activeCategoriesOf nvdaActivity = 3"
  by (simp_all add: nvdaActivity_def insiderSum_def congressSum_def institutionalSum_def
      activeCategoriesOf_def insiderBuysOf_def congressBuysOf_def institutionalIncreasesOf_def
      insiderBuy_def congressPurchase_def holdingIncrease_def
      insiderWeightOf_def congressWeightOf_def calculateInsiderWeight_def
      insiderBaseWeight_CEO_exact insiderSizeMultiplier_def TRANSACTION_SIZE_MULTIPLIERS_def
      calculateCongressWeight_def committeeBonusOf_def calculateInstitutionalWeight_def
      jsge_def)

lemma pureConvergence_scores:
  "map (\<lambda>s. (s_ticker s, convergenceScore s, insiderScore s, congressScore s,
             institutionalScore s, convergenceBonus s))
     (detectConvergence 0 pureConvergence) =
   [(''NVDA'', 1773 / 20, 90, 45 / 2, 45 / 2, 30)]"
  by (simp add: detectConvergence_def groupByTicker_pureConvergence tickerSignal_def
      nvda_sums normalized_def bonusOf_def overallScore_def)

theorem detector_scores_bounded_witness:
  "detectConvergence 0 pureConvergence \<noteq> [] \<and>
   convergenceScore (hd (detectConvergence 0 pureConvergence)) = 1773 / 20 \<and>
   0 \<le> convergenceScore (hd (detectConvergence 0 pureConvergence)) \<and>
   convergenceScore (hd (detectConvergence 0 pureConvergence)) \<le> 100 \<and>
   insiderScore (hd (detectConvergence 0 pureConvergence)) \<le> 100 \<and>
   convergenceScore (hd (detectConvergence 0 pureConvergence)) =
     scoreOfCategoriesAndBonus (insiderScore (hd (detectConvergence 0 pureConvergence)))
       (congressScore (hd (detectConvergence 0 pureConvergence)))
       (institutionalScore (hd (detectConvergence 0 pureConvergence)))
       (convergenceBonus (hd (detectConvergence 0 pureConvergence)))"
proof -
  obtain s where s: "detectConvergence 0 pureConvergence = [s]"
    using pureConvergence_scores by auto
  then have "s \<in> set (detectConvergence 0 pureConvergence)" by simp
  then have b: "0 \<le> insiderScore s \<and> insiderScore s \<le> 100 \<and>
     0 \<le> congressScore s \<and> congressScore s \<le> 100 \<and>
     0 \<le> institutionalScore s \<and> institutionalScore s \<le> 100 \<and>
     0 \<le> convergenceScore s \<and> convergenceScore s \<le> 100 \<and>
     convergenceScore s =
       scoreOfCategoriesAndBonus (insiderScore s) (congressScore s) (institutionalScore s)
         (convergenceBonus s)"
    using detector_scores_bounded [of 0 pureConvergence] by blast
  have "convergenceScore s = 1773 / 20"
    using pureConvergence_scores s by simp
  then show ?thesis using s b by simp
qed

section \<open>Arrival order of the detector's input\<close>

lemma set_ensureTicker:
  "set (ensureTicker t acts) =
     set acts \<union> (if t \<in> fst ` set acts then {} else {(t, emptyActivity)})"
  by (auto simp: ensureTicker_def map_of_eq_None_iff)

lemma set_updateEntry:
  "set (updateEntry t f acts) = (\<lambda>e. if fst e = t then (fst e, f (snd e)) else e) ` set acts"
  by (simp add: updateEntry_def)

lemma activityOf_absent:
  "t \<notin> tickersOf is cs hs \<Longrightarrow> activityOf is cs hs t = emptyActivity"
  by (auto simp: tickersOf_def activityOf_def emptyActivity_def filter_empty_conv)

text \<open>One step of the grouping, for any of the three collections.\<close>

lemma set_add_entry:
  assumes acts: "set acts = (\<lambda>t. (t, A t)) ` T"
    and absent: "\<And>t. t \<notin> T \<Longrightarrow> A t = emptyActivity"
    and pushed: "B t0 = f (A t0)"
    and same: "\<And>t. t \<noteq> t0 \<Longrightarrow> B t = A t"
  shows "set (updateEntry t0 f (ensureTicker t0 acts)) = (\<lambda>t. (t, B t)) ` insert t0 T"
proof -
  have keys: "fst ` (\<lambda>t. (t, A t)) ` T = T" by (simp add: image_image)
  have "set (updateEntry t0 f (ensureTicker t0 acts)) =
        (\<lambda>e. if fst e = t0 then (fst e, f (snd e)) else e) `
          ((\<lambda>t. (t, A t)) ` T \<union> (if t0 \<in> T then {} else {(t0, emptyActivity)}))"
    by (simp only: set_updateEntry set_ensureTicker acts keys)
  also have "\<dots> = (\<lambda>t. (t, B t)) ` insert t0 T"
    (is "?f ` ?A = ?g ` ?B")
  proof (intro set_eqI iffI)
    fix e assume "e \<in> ?f ` ?A"
    then obtain d where d: "d \<in> ?A" "e = ?f d" by blast
    have "\<exists>t. d = (t, A t) \<and> t \<in> ?B"
    proof (cases "d \<in> (\<lambda>t. (t, A t)) ` T")
      case True
      then show ?thesis by blast
    next
      case False
      then have "d = (t0, emptyActivity) \<and> t0 \<notin> T"
        using d(1) by (auto split: if_splits)
      then show ?thesis using absent [of t0] by simp
    qed
    then obtain t where t: "d = (t, A t)" "t \<in> ?B" by blast
    have "e = ?g t" using d t pushed same by (cases "t = t0") simp_all
    then show "e \<in> ?g ` ?B" using t by blast
  next
    fix e assume "e \<in> ?g ` ?B"
    then obtain t where t: "t \<in> ?B" "e = ?g t" by blast
    have dA: "(t, A t) \<in> ?A"
    proof (cases "t \<in> T")
      case True
      then show ?thesis by simp
    next
      case False
      then have "t = t0" using t by simp
      then show ?thesis using False by (simp add: absent)
    qed
    have "e = ?f (t, A t)"
      using t pushed same by (cases "t = t0") simp_all
    then show "e \<in> ?f ` ?A" using dA by (rule image_eqI)
  qed
  finally show ?thesis .
qed

lemma grouped_addInsider:
  assumes "grouped acts is cs hs"
  shows "grouped (addInsider acts tx) (is @ [tx]) cs hs"
proof -
  have T: "tickersOf (is @ [tx]) cs hs = insert (i_ticker tx) (tickersOf is cs hs)"
    by (auto simp: tickersOf_def)
  have "set (addInsider acts tx) =
        (\<lambda>t. (t, activityOf (is @ [tx]) cs hs t)) ` insert (i_ticker tx) (tickersOf is cs hs)"
    unfolding addInsider_def
  proof (rule set_add_entry)
    show "set acts = (\<lambda>t. (t, activityOf is cs hs t)) ` tickersOf is cs hs"
      using assms by (simp add: grouped_def)
  qed (simp_all add: activityOf_absent, simp_all add: activityOf_def)
  then show ?thesis by (simp add: grouped_def T)
qed

lemma grouped_addCongress:
  assumes "grouped acts is cs hs"
  shows "grouped (addCongress acts tx) is (cs @ [tx]) hs"
proof -
  have T: "tickersOf is (cs @ [tx]) hs = insert (c_ticker tx) (tickersOf is cs hs)"
    by (auto simp: tickersOf_def)
  have "set (addCongress acts tx) =
        (\<lambda>t. (t, activityOf is (cs @ [tx]) hs t)) ` insert (c_ticker tx) (tickersOf is cs hs)"
    unfolding addCongress_def
  proof (rule set_add_entry)
    show "set acts = (\<lambda>t. (t, activityOf is cs hs t)) ` tickersOf is cs hs"
      using assms by (simp add: grouped_def)
  qed (simp_all add: activityOf_absent, simp_all add: activityOf_def)
  then show ?thesis by (simp add: grouped_def T)
qed

lemma grouped_addHolding:
  assumes "grouped acts is cs hs"
  shows "grouped (addHolding acts h) is cs (hs @ [h])"
proof -
  have T: "tickersOf is cs (hs @ [h]) = insert (h_ticker h) (tickersOf is cs hs)"
    by (auto simp: tickersOf_def)
  have "set (addHolding acts h) =
        (\<lambda>t. (t, activityOf is cs (hs @ [h]) t)) ` insert (h_ticker h) (tickersOf is cs hs)"
    unfolding addHolding_def
  proof (rule set_add_entry)
    show "set acts = (\<lambda>t. (t, activityOf is cs hs t)) ` tickersOf is cs hs"
      using assms by (simp add: grouped_def)
  qed (simp_all add: activityOf_absent, simp_all add: activityOf_def)
  then show ?thesis by (simp add: grouped_def T)
qed

lemma grouped_foldl_addInsider:
  "grouped acts is cs hs \<Longrightarrow> grouped (foldl addInsider acts xs) (is @ xs) cs hs"
proof (induction xs arbitrary: acts "is")
  case Nil
  then show ?case by simp
next
  case (Cons x xs)
  have "grouped (foldl addInsider (addInsider acts x) xs) ((is @ [x]) @ xs) cs hs"
    by (rule Cons.IH) (rule grouped_addInsider [OF Cons.prems])
  then show ?case by simp
qed

lemma grouped_foldl_addCongress:
  "grouped acts is cs hs \<Longrightarrow> grouped (foldl addCongress acts xs) is (cs @ xs) hs"
proof (induction xs arbitrary: acts cs)
  case Nil
  then show ?case by simp
next
  case (Cons x xs)
  have "grouped (foldl addCongress (addCongress acts x) xs) is ((cs @ [x]) @ xs) hs"
    by (rule Cons.IH) (rule grouped_addCongress [OF Cons.prems])
  then show ?case by simp
qed

lemma grouped_foldl_addHolding:
  "grouped acts is cs hs \<Longrightarrow> grouped (foldl addHolding acts xs) is cs (hs @ xs)"
proof (induction xs arbitrary: acts hs)
  case Nil
  then show ?case by simp
next
  case (Cons x xs)
  have "grouped (foldl addHolding (addHolding acts x) xs) is cs ((hs @ [x]) @ xs)"
    by (rule Cons.IH) (rule grouped_addHolding [OF Cons.prems])
  then show ?case by simp
qed

lemma grouped_groupByTicker:
  "grouped (groupByTicker input) (insiderTransactions input) (congressTransactions input)
     (institutionalHoldings input)"
proof -
  have "grouped [] [] [] []" by (simp add: grouped_def tickersOf_def)
  from grouped_foldl_addInsider [OF this, of "insiderTransactions input"]
  have "grouped (foldl addInsider [] (insiderTransactions input)) (insiderTransactions input) [] []"
    by simp
  from grouped_foldl_addCongress [OF this, of "congressTransactions input"]
  have "grouped (foldl addCongress (foldl addInsider [] (insiderTransactions input))
           (congressTransactions input))
         (insiderTransactions input) (congressTransactions input) []"
    by simp
  from grouped_foldl_addHolding [OF this, of "institutionalHoldings input"]
  show ?thesis by (simp add: groupByTicker_def)
qed

lemma set_objectEntries: "set (objectEntries acts) = set acts"
  by (auto simp: objectEntries_def)

lemma set_detectConvergence:
  "set (detectConvergence now input) =
     {s. \<exists>t \<in> tickersOf (insiderTransactions input) (congressTransactions input)
                (institutionalHoldings input).
           s = tickerSignal now
                 (t, activityOf (insiderTransactions input) (congressTransactions input)
                       (institutionalHoldings input) t) \<and>
           convergenceScore s > 10}"
  using grouped_groupByTicker [of input]
  by (auto simp: detectConvergence_def set_objectEntries grouped_def)


lemma sum_list_perm:
  fixes f :: "'a \<Rightarrow> real"
  shows "mset xs = mset ys \<Longrightarrow> sum_list (map f xs) = sum_list (map f ys)"
  by (metis mset_map sum_mset_sum_list)

lemma scoresOf_perm:
  assumes i: "mset (insider a) = mset (insider b)"
    and c: "mset (congress a) = mset (congress b)"
    and h: "mset (institutional a) = mset (institutional b)"
  shows "scoresOf (tickerSignal now (t, a)) = scoresOf (tickerSignal now (t, b))"
proof -
  have bi: "mset (insiderBuysOf a) = mset (insiderBuysOf b)"
    using i by (simp add: insiderBuysOf_def)
  have bc: "mset (congressBuysOf a) = mset (congressBuysOf b)"
    using c by (simp add: congressBuysOf_def)
  have bh: "mset (institutionalIncreasesOf a) = mset (institutionalIncreasesOf b)"
    using h by (simp add: institutionalIncreasesOf_def)
  have sums: "insiderSum a = insiderSum b" "congressSum a = congressSum b"
    "institutionalSum a = institutionalSum b"
    unfolding insiderSum_def congressSum_def institutionalSum_def
    by (rule sum_list_perm [OF bi], rule sum_list_perm [OF bc], rule sum_list_perm [OF bh])
  have lens: "length (insiderBuysOf a) = length (insiderBuysOf b)"
    "length (congressBuysOf a) = length (congressBuysOf b)"
    "length (institutionalIncreasesOf a) = length (institutionalIncreasesOf b)"
    using bi bc bh by (auto dest: mset_eq_length)
  then have nils: "(insiderBuysOf a = []) = (insiderBuysOf b = [])"
    "(congressBuysOf a = []) = (congressBuysOf b = [])"
    "(institutionalIncreasesOf a = []) = (institutionalIncreasesOf b = [])"
    by (simp_all only: length_0_conv [symmetric])
  have act: "activeCategoriesOf a = activeCategoriesOf b"
    using nils by (simp add: activeCategoriesOf_def)
  show ?thesis
    by (simp add: scoresOf_def tickerSignal_def sums lens act)
qed

lemma sameEvents_sym: "sameEvents a b \<Longrightarrow> sameEvents b a"
  by (simp add: sameEvents_def)

lemma sameEvents_tickers:
  assumes "sameEvents a b"
  shows "tickersOf (insiderTransactions a) (congressTransactions a) (institutionalHoldings a) =
         tickersOf (insiderTransactions b) (congressTransactions b) (institutionalHoldings b)"
proof -
  have "set (insiderTransactions a) = set (insiderTransactions b)"
    "set (congressTransactions a) = set (congressTransactions b)"
    "set (institutionalHoldings a) = set (institutionalHoldings b)"
    using assms by (auto simp: sameEvents_def dest: mset_eq_setD)
  then show ?thesis by (simp add: tickersOf_def)
qed

lemma sameEvents_scores_subset:
  assumes same: "sameEvents a b"
  shows "scoresOf ` set (detectConvergence now a) \<subseteq> scoresOf ` set (detectConvergence now b)"
proof
  fix x
  assume "x \<in> scoresOf ` set (detectConvergence now a)"
  then obtain s where s: "s \<in> set (detectConvergence now a)" "x = scoresOf s" by blast
  let ?actA = "activityOf (insiderTransactions a) (congressTransactions a) (institutionalHoldings a)"
  let ?actB = "activityOf (insiderTransactions b) (congressTransactions b) (institutionalHoldings b)"
  from s(1) obtain t where
    t: "t \<in> tickersOf (insiderTransactions a) (congressTransactions a) (institutionalHoldings a)"
    and sa: "s = tickerSignal now (t, ?actA t)" and big: "convergenceScore s > 10"
    unfolding set_detectConvergence by blast
  let ?s' = "tickerSignal now (t, ?actB t)"
  have eq: "scoresOf s = scoresOf ?s'"
    unfolding sa using same
    by (intro scoresOf_perm) (simp_all add: activityOf_def sameEvents_def)
  then have "convergenceScore ?s' > 10"
    using big by (simp add: scoresOf_def)
  moreover have
    "t \<in> tickersOf (insiderTransactions b) (congressTransactions b) (institutionalHoldings b)"
    using t sameEvents_tickers [OF same] by simp
  ultimately have "?s' \<in> set (detectConvergence now b)"
    unfolding set_detectConvergence by blast
  then show "x \<in> scoresOf ` set (detectConvergence now b)"
    using s(2) eq by (metis imageI)
qed

lemma recentBuyers_detectConvergence:
  assumes "s \<in> set (detectConvergence now input)"
  shows "recentBuyers s =
           sort_key (\<lambda>b. - rb_date b)
             (buyersOf (activityOf (insiderTransactions input) (congressTransactions input)
                (institutionalHoldings input) (s_ticker s)))"
proof -
  obtain t where "s = tickerSignal now
                 (t, activityOf (insiderTransactions input) (congressTransactions input)
                       (institutionalHoldings input) t)"
    using assms unfolding set_detectConvergence by blast
  then show ?thesis by (simp add: tickerSignal_def)
qed

text \<open>
  Claim C7, as amended. Permuting each of the three event collections leaves the set of
  emitted signals unchanged in everything but the company name, the date and the list of
  recent buyers: the same tickers with the same scores, bonus and activity counts. The
  list of recent buyers of a signal is sorted descending by date and holds the first five
  insider buys, the first three legislator purchases and the first three institutional
  increases of the ticker in arrival order.
\<close>

theorem detector_order_independent_scores:
  "(sameEvents a b \<longrightarrow>
      scoresOf ` set (detectConvergence now a) = scoresOf ` set (detectConvergence now b)) \<and>
   (\<forall>s \<in> set (detectConvergence now a).
      sorted (map (\<lambda>b. - rb_date b) (recentBuyers s)) \<and>
      recentBuyers s =
        sort_key (\<lambda>b. - rb_date b)
          (buyersOf (activityOf (insiderTransactions a) (congressTransactions a)
             (institutionalHoldings a) (s_ticker s))))"
proof (intro conjI impI ballI)
  assume same: "sameEvents a b"
  show "scoresOf ` set (detectConvergence now a) = scoresOf ` set (detectConvergence now b)"
    using sameEvents_scores_subset [OF same] sameEvents_scores_subset [OF sameEvents_sym [OF same]]
    by blast
next
  fix s assume s: "s \<in> set (detectConvergence now a)"
  show "recentBuyers s =
        sort_key (\<lambda>b. - rb_date b)
          (buyersOf (activityOf (insiderTransactions a) (congressTransactions a)
             (institutionalHoldings a) (s_ticker s)))"
    by (rule recentBuyers_detectConvergence [OF s])
  then show "sorted (map (\<lambda>b. - rb_date b) (recentBuyers s))"
    by simp
qed

lemma insiderWeightOf_director:
  "insiderWeightOf (insiderBuy tk who ''Director'' 1000 10 d) = 15 / 2"
  by (simp add: insiderWeightOf_def insiderBuy_def calculateInsiderWeight_def
      insiderBaseWeight_Director insiderSizeMultiplier_def jsge_def
      TRANSACTION_SIZE_MULTIPLIERS_def)

lemma isArrayIndex_ACME: "\<not> isArrayIndex ''ACME''"
  by (simp add: isArrayIndex_def digits_def)

lemma entries_sixBuys:
  "objectEntries (groupByTicker sixBuys) =
     [(''ACME'', \<lparr> insider = sixBuyList, congress = [], institutional = [] \<rparr>)]"
  by (simp add: objectEntries_def isArrayIndex_ACME groupByTicker_def sixBuys_def sixBuyList_def
      addInsider_def ensureTicker_def updateEntry_def emptyActivity_def insiderBuy_def)

lemma entries_sixBuysReversed:
  "objectEntries (groupByTicker sixBuysReversed) =
     [(''ACME'', \<lparr> insider = rev sixBuyList, congress = [], institutional = [] \<rparr>)]"
  by (simp add: objectEntries_def isArrayIndex_ACME groupByTicker_def sixBuysReversed_def
      sixBuyList_def addInsider_def ensureTicker_def updateEntry_def emptyActivity_def
      insiderBuy_def)

lemma insiderSum_six:
  "insiderSum \<lparr> insider = sixBuyList, congress = [], institutional = [] \<rparr> = 45"
  "insiderSum \<lparr> insider = rev sixBuyList, congress = [], institutional = [] \<rparr> = 45"
  by (simp_all add: insiderSum_def insiderBuysOf_def sixBuyList_def insiderWeightOf_director,
      simp_all add: insiderBuy_def)


lemma other_sums_six:
  "congressSum \<lparr> insider = xs, congress = [], institutional = [] \<rparr> = 0"
  "institutionalSum \<lparr> insider = xs, congress = [], institutional = [] \<rparr> = 0"
  by (simp_all add: congressSum_def congressBuysOf_def institutionalSum_def
      institutionalIncreasesOf_def)

lemma active_six:
  "activeCategoriesOf \<lparr> insider = sixBuyList, congress = [], institutional = [] \<rparr> = 1"
  "activeCategoriesOf \<lparr> insider = rev sixBuyList, congress = [], institutional = [] \<rparr> = 1"
  by (simp_all add: activeCategoriesOf_def insiderBuysOf_def congressBuysOf_def
      institutionalIncreasesOf_def sixBuyList_def insiderBuy_def)

lemma buyers_six:
  "map rb_name (sort_key (\<lambda>b. - rb_date b)
       (buyersOf \<lparr> insider = sixBuyList, congress = [], institutional = [] \<rparr>)) =
     [''E'', ''D'', ''C'', ''B'', ''A'']"
  "map rb_name (sort_key (\<lambda>b. - rb_date b)
       (buyersOf \<lparr> insider = rev sixBuyList, congress = [], institutional = [] \<rparr>)) =
     [''F'', ''E'', ''D'', ''C'', ''B'']"
  by (simp_all add: buyersOf_def insiderBuysOf_def congressBuysOf_def
      institutionalIncreasesOf_def sixBuyList_def insiderBuy_def insiderBuyer_def)

lemma buyers_sixBuys:
  "map (\<lambda>s. map rb_name (recentBuyers s)) (detectConvergence 0 sixBuys) =
     [[''E'', ''D'', ''C'', ''B'', ''A'']]"
  by (simp add: detectConvergence_def entries_sixBuys tickerSignal_def insiderSum_six
      other_sums_six active_six normalized_def bonusOf_def overallScore_def buyers_six)

lemma buyers_sixBuysReversed:
  "map (\<lambda>s. map rb_name (recentBuyers s)) (detectConvergence 0 sixBuysReversed) =
     [[''F'', ''E'', ''D'', ''C'', ''B'']]"
  by (simp add: detectConvergence_def entries_sixBuysReversed tickerSignal_def insiderSum_six
      other_sums_six active_six normalized_def bonusOf_def overallScore_def buyers_six)

lemma sameEvents_sixBuys: "sameEvents sixBuys sixBuysReversed"
  by (simp add: sameEvents_def sixBuys_def sixBuysReversed_def)

text \<open>
  Claim C7 as stated fails: the two inputs below hold the same six insider buys of one
  ticker in opposite arrival orders, and the detector lists different recent buyers for
  them. With the buys arriving oldest first, the most recent buyer (F) is not listed.
\<close>

theorem detector_order_counterexample:
  "sameEvents sixBuys sixBuysReversed \<and>
   map (map rb_name) (map recentBuyers (detectConvergence 0 sixBuys)) =
     [[''E'', ''D'', ''C'', ''B'', ''A'']] \<and>
   map (map rb_name) (map recentBuyers (detectConvergence 0 sixBuysReversed)) =
     [[''F'', ''E'', ''D'', ''C'', ''B'']] \<and>
   set (detectConvergence 0 sixBuys) \<noteq> set (detectConvergence 0 sixBuysReversed)"
proof -
  obtain s where s: "detectConvergence 0 sixBuys = [s]"
    using buyers_sixBuys by auto
  obtain s' where s': "detectConvergence 0 sixBuysReversed = [s']"
    using buyers_sixBuysReversed by auto
  have n: "map rb_name (recentBuyers s) = [''E'', ''D'', ''C'', ''B'', ''A'']"
    "map rb_name (recentBuyers s') = [''F'', ''E'', ''D'', ''C'', ''B'']"
    using buyers_sixBuys buyers_sixBuysReversed s s' by simp_all
  then have "s \<noteq> s'" by auto
  then have "set (detectConvergence 0 sixBuys) \<noteq> set (detectConvergence 0 sixBuysReversed)"
    using s s' by simp
  then show ?thesis
    using sameEvents_sixBuys n s s' by simp
qed

lemma scores_sixBuys:
  "map scoresOf (detectConvergence 0 sixBuys) =
     [(''ACME'', 63 / 2, 90, 0, 0, 0,
       \<lparr> insiderBuys = 6, congressBuys = 0, institutionalIncreases = 0 \<rparr>)]"
  by (simp add: detectConvergence_def entries_sixBuys tickerSignal_def insiderSum_six
      other_sums_six active_six normalized_def bonusOf_def overallScore_def scoresOf_def,
      simp add: insiderBuysOf_def congressBuysOf_def institutionalIncreasesOf_def
        sixBuyList_def insiderBuy_def)

theorem detector_order_independent_scores_witness:
  "sameEvents sixBuys sixBuysReversed \<and>
   scoresOf ` set (detectConvergence 0 sixBuysReversed) =
     {(''ACME'', 63 / 2, 90, 0, 0, 0,
       \<lparr> insiderBuys = 6, congressBuys = 0, institutionalIncreases = 0 \<rparr>)} \<and>
   detectConvergence 0 sixBuys \<noteq> [] \<and>
   sorted (map (\<lambda>b. - rb_date b) (recentBuyers (hd (detectConvergence 0 sixBuys)))) \<and>
   map rb_name (recentBuyers (hd (detectConvergence 0 sixBuys))) =
     [''E'', ''D'', ''C'', ''B'', ''A'']"
proof -
  obtain s where s: "detectConvergence 0 sixBuys = [s]"
    using buyers_sixBuys by auto
  have a: "scoresOf ` set (detectConvergence 0 sixBuys) =
           scoresOf ` set (detectConvergence 0 sixBuysReversed)"
    and b: "sorted (map (\<lambda>b. - rb_date b) (recentBuyers s))"
    using detector_order_independent_scores [of sixBuys sixBuysReversed 0] sameEvents_sixBuys s
    by simp_all
  have "scoresOf ` set (detectConvergence 0 sixBuys) =
     {(''ACME'', 63 / 2, 90, 0, 0, 0,
       \<lparr> insiderBuys = 6, congressBuys = 0, institutionalIncreases = 0 \<rparr>)}"
    using scores_sixBuys by (simp only: set_map [symmetric]) simp
  then show ?thesis
    using a b s buyers_sixBuys sameEvents_sixBuys by simp
qed

section \<open>Ingestion\<close>

lemma storedWithKey_append:
  "storedWithKey keyOf k (xs @ [x]) = storedWithKey keyOf k xs + (if keyOf x = k then 1 else 0)"
  by (simp add: storedWithKey_def)

lemma storedWithKey_zero: "storedWithKey keyOf k xs = 0 \<longleftrightarrow> \<not> list_ex (\<lambda>x. keyOf x = k) xs"
  by (auto simp: storedWithKey_def list_ex_iff filter_empty_conv)

lemma storedWithKey_distinct:
  "distinct (map keyOf xs) \<Longrightarrow> storedWithKey keyOf k xs \<le> 1"
  by (induction xs) (auto simp: storedWithKey_def filter_empty_conv image_iff)

text \<open>
  The common shape of the three insertions on the stored collection: append unless a
  record with the key is there.
\<close>

lemma push_unless_exists:
  fixes keyOf :: "'a \<Rightarrow> string"
  assumes same: "keyOf y = k"
  shows "list_ex (\<lambda>z. keyOf z = k)
           (if \<not> list_ex (\<lambda>z. keyOf z = k) xs then xs @ [y] else xs)"
    and "distinct (map keyOf xs) \<Longrightarrow>
         distinct (map keyOf (if \<not> list_ex (\<lambda>z. keyOf z = k) xs then xs @ [y] else xs))"
    and "distinct (map keyOf xs) \<Longrightarrow>
         storedWithKey keyOf k
           (if \<not> list_ex (\<lambda>z. keyOf z = k) xs then xs @ [y] else xs) = 1"
proof -
  let ?after = "if \<not> list_ex (\<lambda>z. keyOf z = k) xs then xs @ [y] else xs"
  show ex: "list_ex (\<lambda>z. keyOf z = k) ?after"
    using same by simp
  show d: "distinct (map keyOf ?after)" if "distinct (map keyOf xs)"
    using that same by (auto simp: list_ex_iff)
  show "storedWithKey keyOf k ?after = 1" if "distinct (map keyOf xs)"
  proof -
    have "storedWithKey keyOf k ?after \<le> 1"
      by (rule storedWithKey_distinct [OF d [OF that]])
    moreover have "storedWithKey keyOf k ?after \<noteq> 0"
      using ex by (simp only: storedWithKey_zero) simp
    ultimately show ?thesis by simp
  qed
qed

lemma data_writeThrough: "data (writeThrough db) = data db"
  by (simp add: writeThrough_def)

text \<open>
  Within one session, the second insertion of an event with the same ticker, insider,
  transaction date and number of shares changes nothing, and one stored record carries
  its key.
\<close>

lemma saveInsiderTransaction_fresh:
  assumes "data db = Some d"
    and "\<not> list_ex (\<lambda>z. getTransactionKey num z = getTransactionKey num (AsDate, tx))
             (insider_transactions d)"
  shows "saveInsiderTransaction num newId db tx =
           Inr (writeThrough (db \<lparr> data := Some (d \<lparr> insider_transactions :=
                  insider_transactions d @ [(AsDate, tx \<lparr> i_id := Some newId \<rparr>)] \<rparr>) \<rparr>))"
  unfolding saveInsiderTransaction_def Let_def using assms by simp

lemma saveInsiderTransaction_known:
  assumes "data db = Some d"
    and "list_ex (\<lambda>z. getTransactionKey num z = getTransactionKey num (AsDate, tx))
           (insider_transactions d)"
  shows "saveInsiderTransaction num newId db tx = Inr db"
  unfolding saveInsiderTransaction_def Let_def using assms by simp

lemma saveInsiderTransaction_twice:
  assumes init: "data db = Some d"
    and same: "i_ticker tx' = i_ticker tx" "insiderName tx' = insiderName tx"
      "i_transactionDate tx' = i_transactionDate tx" "i_shares tx' = i_shares tx"
  shows "\<exists>db1 d1. saveInsiderTransaction num id1 db tx = Inr db1 \<and> data db1 = Some d1 \<and>
           saveInsiderTransaction num id2 db1 tx' = Inr db1 \<and>
           (distinct (map (getTransactionKey num) (insider_transactions d)) \<longrightarrow>
              storedWithKey (getTransactionKey num) (getTransactionKey num (AsDate, tx))
                (insider_transactions d1) = 1)"
proof -
  let ?k = "getTransactionKey num"
  let ?key = "?k (AsDate, tx)"
  let ?y = "(AsDate, tx \<lparr> i_id := Some id1 \<rparr>)"
  have ky: "?k ?y = ?key" by (simp add: getTransactionKey_def)
  have k': "?k (AsDate, tx') = ?key" using same by (simp add: getTransactionKey_def)
  show ?thesis
  proof (cases "list_ex (\<lambda>z. ?k z = ?key) (insider_transactions d)")
    case True
    have first: "saveInsiderTransaction num id1 db tx = Inr db"
      by (rule saveInsiderTransaction_known [OF init True])
    have second: "saveInsiderTransaction num id2 db tx' = Inr db"
      by (rule saveInsiderTransaction_known [OF init]) (simp only: k' True)
    have "storedWithKey ?k ?key (insider_transactions d) = 1"
      if "distinct (map ?k (insider_transactions d))"
      using push_unless_exists(3) [OF ky that] True by simp
    then show ?thesis using first second init by blast
  next
    case False
    let ?d1 = "d \<lparr> insider_transactions := insider_transactions d @ [?y] \<rparr>"
    let ?db1 = "writeThrough (db \<lparr> data := Some ?d1 \<rparr>)"
    have first: "saveInsiderTransaction num id1 db tx = Inr ?db1"
      by (rule saveInsiderTransaction_fresh [OF init False])
    have d1: "data ?db1 = Some ?d1" by (simp add: data_writeThrough)
    have ex: "list_ex (\<lambda>z. ?k z = ?k (AsDate, tx')) (insider_transactions ?d1)"
      using ky k' by simp
    have second: "saveInsiderTransaction num id2 ?db1 tx' = Inr ?db1"
      by (rule saveInsiderTransaction_known [OF d1 ex])
    have "storedWithKey ?k ?key (insider_transactions ?d1) = 1"
      if "distinct (map ?k (insider_transactions d))"
      using push_unless_exists(3) [OF ky that] False by simp
    then show ?thesis using first second d1 by blast
  qed
qed

lemma saveCongressTransaction_fresh:
  assumes "data db = Some d"
    and "\<not> list_ex (\<lambda>z. getCongressKey num z = getCongressKey num (AsDate, tx))
             (congress_transactions d)"
  shows "saveCongressTransaction num newId db tx =
           Inr (writeThrough (db \<lparr> data := Some (d \<lparr> congress_transactions :=
                  congress_transactions d @ [(AsDate, tx \<lparr> c_id := Some newId \<rparr>)] \<rparr>) \<rparr>))"
  unfolding saveCongressTransaction_def Let_def using assms by simp

lemma saveCongressTransaction_known:
  assumes "data db = Some d"
    and "list_ex (\<lambda>z. getCongressKey num z = getCongressKey num (AsDate, tx))
           (congress_transactions d)"
  shows "saveCongressTransaction num newId db tx = Inr db"
  unfolding saveCongressTransaction_def Let_def using assms by simp

lemma saveCongressTransaction_twice:
  assumes init: "data db = Some d"
    and same: "c_ticker tx' = c_ticker tx" "memberName tx' = memberName tx"
      "c_transactionDate tx' = c_transactionDate tx"
      "fst (amountRange tx') = fst (amountRange tx)"
  shows "\<exists>db1 d1. saveCongressTransaction num id1 db tx = Inr db1 \<and> data db1 = Some d1 \<and>
           saveCongressTransaction num id2 db1 tx' = Inr db1 \<and>
           (distinct (map (getCongressKey num) (congress_transactions d)) \<longrightarrow>
              storedWithKey (getCongressKey num) (getCongressKey num (AsDate, tx))
                (congress_transactions d1) = 1)"
proof -
  let ?k = "getCongressKey num"
  let ?key = "?k (AsDate, tx)"
  let ?y = "(AsDate, tx \<lparr> c_id := Some id1 \<rparr>)"
  have ky: "?k ?y = ?key" by (simp add: getCongressKey_def)
  have k': "?k (AsDate, tx') = ?key" using same by (simp add: getCongressKey_def)
  show ?thesis
  proof (cases "list_ex (\<lambda>z. ?k z = ?key) (congress_transactions d)")
    case True
    have first: "saveCongressTransaction num id1 db tx = Inr db"
      by (rule saveCongressTransaction_known [OF init True])
    have second: "saveCongressTransaction num id2 db tx' = Inr db"
      by (rule saveCongressTransaction_known [OF init]) (simp only: k' True)
    have "storedWithKey ?k ?key (congress_transactions d) = 1"
      if "distinct (map ?k (congress_transactions d))"
      using push_unless_exists(3) [OF ky that] True by simp
    then show ?thesis using first second init by blast
  next
    case False
    let ?d1 = "d \<lparr> congress_transactions := congress_transactions d @ [?y] \<rparr>"
    let ?db1 = "writeThrough (db \<lparr> data := Some ?d1 \<rparr>)"
    have first: "saveCongressTransaction num id1 db tx = Inr ?db1"
      by (rule saveCongressTransaction_fresh [OF init False])
    have d1: "data ?db1 = Some ?d1" by (simp add: data_writeThrough)
    have ex: "list_ex (\<lambda>z. ?k z = ?k (AsDate, tx')) (congress_transactions ?d1)"
      using ky k' by simp
    have second: "saveCongressTransaction num id2 ?db1 tx' = Inr ?db1"
      by (rule saveCongressTransaction_known [OF d1 ex])
    have "storedWithKey ?k ?key (congress_transactions ?d1) = 1"
      if "distinct (map ?k (congress_transactions d))"
      using push_unless_exists(3) [OF ky that] False by simp
    then show ?thesis using first second d1 by blast
  qed
qed

lemma saveInstitutionalHolding_fresh:
  assumes "data db = Some d"
    and "\<not> list_ex (\<lambda>z. getHoldingKey z = getHoldingKey (AsDate, tx))
             (institutional_holdings d)"
  shows "saveInstitutionalHolding newId db tx =
           Inr (writeThrough (db \<lparr> data := Some (d \<lparr> institutional_holdings :=
                  institutional_holdings d @ [(AsDate, tx \<lparr> h_id := Some newId \<rparr>)] \<rparr>) \<rparr>))"
  unfolding saveInstitutionalHolding_def Let_def using assms by simp

lemma saveInstitutionalHolding_known:
  assumes "data db = Some d"
    and "list_ex (\<lambda>z. getHoldingKey z = getHoldingKey (AsDate, tx))
           (institutional_holdings d)"
  shows "saveInstitutionalHolding newId db tx = Inr db"
  unfolding saveInstitutionalHolding_def Let_def using assms by simp

lemma saveInstitutionalHolding_twice:
  assumes init: "data db = Some d"
    and same: "h_ticker tx' = h_ticker tx" "institutionCIK tx' = institutionCIK tx"
      "reportDate tx' = reportDate tx"
  shows "\<exists>db1 d1. saveInstitutionalHolding id1 db tx = Inr db1 \<and> data db1 = Some d1 \<and>
           saveInstitutionalHolding id2 db1 tx' = Inr db1 \<and>
           (distinct (map (getHoldingKey) (institutional_holdings d)) \<longrightarrow>
              storedWithKey (getHoldingKey) (getHoldingKey (AsDate, tx))
                (institutional_holdings d1) = 1)"
proof -
  let ?k = "getHoldingKey"
  let ?key = "?k (AsDate, tx)"
  let ?y = "(AsDate, tx \<lparr> h_id := Some id1 \<rparr>)"
  have ky: "?k ?y = ?key" by (simp add: getHoldingKey_def)
  have k': "?k (AsDate, tx') = ?key" using same by (simp add: getHoldingKey_def)
  show ?thesis
  proof (cases "list_ex (\<lambda>z. ?k z = ?key) (institutional_holdings d)")
    case True
    have first: "saveInstitutionalHolding id1 db tx = Inr db"
      by (rule saveInstitutionalHolding_known [OF init True])
    have second: "saveInstitutionalHolding id2 db tx' = Inr db"
      by (rule saveInstitutionalHolding_known [OF init]) (simp only: k' True)
    have "storedWithKey ?k ?key (institutional_holdings d) = 1"
      if "distinct (map ?k (institutional_holdings d))"
      using push_unless_exists(3) [OF ky that] True by simp
    then show ?thesis using first second init by blast
  next
    case False
    let ?d1 = "d \<lparr> institutional_holdings := institutional_holdings d @ [?y] \<rparr>"
    let ?db1 = "writeThrough (db \<lparr> data := Some ?d1 \<rparr>)"
    have first: "saveInstitutionalHolding id1 db tx = Inr ?db1"
      by (rule saveInstitutionalHolding_fresh [OF init False])
    have d1: "data ?db1 = Some ?d1" by (simp add: data_writeThrough)
    have ex: "list_ex (\<lambda>z. ?k z = ?k (AsDate, tx')) (institutional_holdings ?d1)"
      using ky k' by simp
    have second: "saveInstitutionalHolding id2 ?db1 tx' = Inr ?db1"
      by (rule saveInstitutionalHolding_known [OF d1 ex])
    have "storedWithKey ?k ?key (institutional_holdings ?d1) = 1"
      if "distinct (map ?k (institutional_holdings d))"
      using push_unless_exists(3) [OF ky that] False by simp
    then show ?thesis using first second d1 by blast
  qed
qed

lemma msPerDay_value: "msPerDay = 86400000"
  by (simp add: msPerDay_def)

lemma day_timCook: "Day 1704067200000 = 19723" "(1704067200000::int) mod msPerDay = 0"
  by (simp_all add: Day_def msPerDay_value)

lemma era_19723: "eraOf 19723 = 5" "dayOfEra 19723 = 8706"
  by (simp_all add: eraOf_def dayOfEra_def)

lemma year_8706: "yearOfEra 8706 = 23" 
  by (simp add: yearOfEra_def)

lemma doy_8706: "dayOfYear 8706 = 306" 
  by (simp add: dayOfYear_def year_8706)

lemma mp_306: "monthFromMarch 306 = 10"
  by (simp add: monthFromMarch_def)

lemma calendar_timCook:
  "MonthFromTime 1704067200000 = 0" "DateFromTime 1704067200000 = 1"
  "YearFromTime 1704067200000 = 2024" "WeekDay 1704067200000 = 1"
  by (simp_all add: MonthFromTime_def DateFromTime_def YearFromTime_def WeekDay_def day_timCook
      era_19723 year_8706 doy_8706 mp_306)

lemma decimal_small: "decimal 0 = ''0''" "decimal 1 = ''1''" "decimal 2024 = ''2024''"
  by (simp_all add: decimal.simps digits_def)

lemma padded_vals: "padded 2 0 = ''00''" "padded 2 (Suc 0) = ''01''" "padded 4 2024 = ''2024''" "padded 3 0 = ''000''"
  by (simp_all add: padded_def decimal.simps digits_def numeral_2_eq_2)

lemma dates_timCook:
  "dateToString 1704067200000 =
     ''Mon Jan 01 2024 00:00:00 GMT+0000 (Coordinated Universal Time)''"
  "toISOString 1704067200000 = ''2024-01-01T00:00:00.000Z''"
  by (simp_all add: dateToString_def toISOString_def calendar_timCook timeOfDay_def day_timCook
     padded_vals weekDays_def monthNames_def yearSign_def isoYear_def)

lemma wholeNumber_10000: "wholeNumber (Fin 10000) = ''10000''"
  by (simp add: wholeNumber_def decimal.simps digits_def)

lemma keys_timCook:
  "getTransactionKey wholeNumber (AsDate, timCook \<lparr> i_id := x \<rparr>) =
     ''AAPL-Tim Cook-Mon Jan 01 2024 00:00:00 GMT+0000 (Coordinated Universal Time)-10000''"
  "getTransactionKey wholeNumber (AsIsoString, timCook \<lparr> i_id := x \<rparr>) =
     ''AAPL-Tim Cook-2024-01-01T00:00:00.000Z-10000''"
  by (simp_all add: getTransactionKey_def timCook_def insiderBuy_def dates_timCook
      wholeNumber_10000)

lemma keys_timCook_plain:
  "getTransactionKey wholeNumber (AsDate, timCook) =
     ''AAPL-Tim Cook-Mon Jan 01 2024 00:00:00 GMT+0000 (Coordinated Universal Time)-10000''"
  using keys_timCook(1) [of "i_id timCook"] by simp

lemma firstRun_value:
  "firstRun =
     \<lparr> data = None, dbPath = ''/app/data/investbot.json'',
       jsonFile = Some (defaultData \<lparr> insider_transactions :=
                    [(AsDate, timCook \<lparr> i_id := Some ''1-a'' \<rparr>)] \<rparr>) \<rparr>"
proof -
  have i: "data (initialize fileDb) = Some defaultData"
    by (simp add: initialize_def fileDb_def)
  have n: "\<not> list_ex (\<lambda>z. getTransactionKey wholeNumber z =
              getTransactionKey wholeNumber (AsDate, timCook)) (insider_transactions defaultData)"
    by (simp add: defaultData_def)
  show ?thesis
    unfolding firstRun_def saveInsiderTransaction_fresh [OF i n]
    by (simp add: close_def writeThrough_def initialize_def fileDb_def defaultData_def)
qed

lemma secondRun_value:
  "secondRun =
     \<lparr> data = Some (defaultData \<lparr> insider_transactions :=
                    [(AsIsoString, timCook \<lparr> i_id := Some ''1-a'' \<rparr>),
                     (AsDate, timCook \<lparr> i_id := Some ''2-b'' \<rparr>)] \<rparr>),
       dbPath = ''/app/data/investbot.json'',
       jsonFile = Some (defaultData \<lparr> insider_transactions :=
                    [(AsIsoString, timCook \<lparr> i_id := Some ''1-a'' \<rparr>),
                     (AsDate, timCook \<lparr> i_id := Some ''2-b'' \<rparr>)] \<rparr>) \<rparr>"
proof -
  let ?d = "defaultData \<lparr> insider_transactions :=
              [(AsIsoString, timCook \<lparr> i_id := Some ''1-a'' \<rparr>)] \<rparr>"
  have i: "data (initialize firstRun) = Some ?d"
    by (simp add: firstRun_value initialize_def readBack_def defaultData_def)
  have n: "\<not> list_ex (\<lambda>z. getTransactionKey wholeNumber z =
              getTransactionKey wholeNumber (AsDate, timCook)) (insider_transactions ?d)"
    by (simp add: keys_timCook keys_timCook_plain)
  show ?thesis
    unfolding secondRun_def saveInsiderTransaction_fresh [OF i n]
    by (simp add: writeThrough_def initialize_def firstRun_value readBack_def defaultData_def)
qed

lemma memoryDb_twice:
  "map storedAs (insider_transactions (the (data (projr
     (saveInsiderTransaction wholeNumber ''2-b''
        (projr (saveInsiderTransaction wholeNumber ''1-a'' memoryDb timCook)) timCook))))) =
   [(AsDate, ''AAPL'', ''Tim Cook'', 1704067200000, Fin 10000)]"
proof -
  have i: "data memoryDb = Some defaultData" by (simp add: memoryDb_def)
  have n: "\<not> list_ex (\<lambda>z. getTransactionKey wholeNumber z =
              getTransactionKey wholeNumber (AsDate, timCook)) (insider_transactions defaultData)"
    by (simp add: defaultData_def)
  let ?d1 = "defaultData \<lparr> insider_transactions :=
               insider_transactions defaultData @ [(AsDate, timCook \<lparr> i_id := Some ''1-a'' \<rparr>)] \<rparr>"
  let ?db1 = "writeThrough (memoryDb \<lparr> data := Some ?d1 \<rparr>)"
  have d1: "data ?db1 = Some ?d1" by (simp add: data_writeThrough)
  have e: "list_ex (\<lambda>z. getTransactionKey wholeNumber z =
              getTransactionKey wholeNumber (AsDate, timCook)) (insider_transactions ?d1)"
    by (simp add: keys_timCook keys_timCook_plain)
  show ?thesis
    unfolding saveInsiderTransaction_fresh [OF i n] sum.sel
      saveInsiderTransaction_known [OF d1 e]
    by (simp add: data_writeThrough defaultData_def storedAs_def timCook_def insiderBuy_def)
qed

lemma decimal_digits: "decimal n \<noteq> [] \<and> set (decimal n) \<subseteq> set digits"
proof (induction n rule: decimal.induct)
  case (1 n)
  have len: "length digits = 10" by (simp add: digits_def)
  show ?case
  proof (cases "n < 10")
    case True
    then have "decimal n = [digits ! n]" by (subst decimal.simps) simp
    moreover have "digits ! n \<in> set digits" using True len by (simp only: nth_mem)
    ultimately show ?thesis by simp
  next
    case False
    then have e: "decimal n = decimal (n div 10) @ [digits ! (n mod 10)]"
      by (subst decimal.simps) simp
    have "n mod 10 < length digits" using len by simp
    then have "digits ! (n mod 10) \<in> set digits" by (rule nth_mem)
    then show ?thesis using 1 False unfolding e by simp
  qed
qed

lemma hd_padded: "padded w n \<noteq> [] \<and> hd (padded w n) \<in> set digits"
proof (cases "w - length (decimal n)")
  case 0
  then show ?thesis using decimal_digits [of n] by (auto simp: padded_def)
next
  case (Suc k)
  then show ?thesis by (simp add: padded_def digits_def)
qed

lemma hd_toISOString: "toISOString t \<noteq> [] \<and> hd (toISOString t) \<in> set ''0123456789+-''"
proof -
  have "isoYear y \<noteq> [] \<and> hd (isoYear y) \<in> set ''0123456789+-''" for y
    using hd_padded [of 4 "nat y"] by (auto simp: isoYear_def digits_def)
  then show ?thesis by (simp add: toISOString_def hd_append)
qed

lemma hd_dateToString: "dateToString t \<noteq> [] \<and> hd (dateToString t) \<in> set ''SMTWF''"
proof -
  have "WeekDay t < 7" by (simp add: WeekDay_def)
  then have "WeekDay t \<in> {0, 1, 2, 3, 4, 5, 6}" by auto
  then have "weekDays ! WeekDay t \<noteq> [] \<and> hd (weekDays ! WeekDay t) \<in> set ''SMTWF''"
    by (auto simp: weekDays_def)
  then show ?thesis by (simp add: dateToString_def hd_append)
qed

text \<open>
  A record that was read back from the file never has the key of an event of the same
  ticker and insider that is handed in: the one prints its date from a digit or a sign,
  the other from the initial of a weekday.
\<close>

lemma reopened_key_differs:
  assumes "i_ticker x = i_ticker tx" and "insiderName x = insiderName tx"
  shows "getTransactionKey num (AsIsoString, x) \<noteq> getTransactionKey num (AsDate, tx)"
proof -
  have "hd (toISOString a) \<noteq> hd (dateToString b)" for a b
    using hd_toISOString [of a] hd_dateToString [of b] by auto
  then have "toISOString a @ r \<noteq> dateToString b @ s" for a b r s
    using hd_toISOString [of a] hd_dateToString [of b] by (metis hd_append2)
  then show ?thesis using assms by (simp add: getTransactionKey_def)
qed

text \<open>
  Claim C8 fails on the file database. The event is inserted in one run and the database
  closed; the next run reads the record back with its transaction date as the ISO string
  \<^verbatim>\<open>2024-01-01T00:00:00.000Z\<close>, while the same event handed in again holds a
  \<^verbatim>\<open>Date\<close> that prints as \<^verbatim>\<open>Mon Jan 01 2024 00:00:00 GMT+0000 ...\<close>: the
  two dedup keys differ and the event is stored a second time. In one session (here on the
  in-memory database of the repository's test) the second insertion changes nothing.
\<close>

theorem reopened_database_stores_event_twice:
  "map storedAs (insider_transactions (the (data secondRun))) =
     [(AsIsoString, ''AAPL'', ''Tim Cook'', 1704067200000, Fin 10000),
      (AsDate, ''AAPL'', ''Tim Cook'', 1704067200000, Fin 10000)] \<and>
   map (getTransactionKey wholeNumber) (insider_transactions (the (data secondRun))) =
     [''AAPL-Tim Cook-2024-01-01T00:00:00.000Z-10000'',
      ''AAPL-Tim Cook-Mon Jan 01 2024 00:00:00 GMT+0000 (Coordinated Universal Time)-10000''] \<and>
   map storedAs (insider_transactions (the (data (projr
     (saveInsiderTransaction wholeNumber ''2-b''
        (projr (saveInsiderTransaction wholeNumber ''1-a'' memoryDb timCook)) timCook))))) =
     [(AsDate, ''AAPL'', ''Tim Cook'', 1704067200000, Fin 10000)]"
  unfolding memoryDb_twice
  by (simp add: secondRun_value keys_timCook)
     (simp add: storedAs_def timCook_def insiderBuy_def defaultData_def)

section \<open>Runs of the simulator on the concrete inputs\<close>

lemma qualified_signalDb:
  "generateSignalsForPeriod (Some signalDb) 0 0 86400000 = Inr [acmeSignal]"
  by (simp add: generateSignalsForPeriod_def getConvergenceSignals_def signalDb_def
      msPerDay_def acmeSignal_def)

lemma bar_simps: "hp_close (bar d c) = Fin c" "hp_date (bar d c) = d"
  by (simp_all add: bar_def)

lemma getPriceOnDate_two:
  "getPriceOnDate [bar 0 a, bar 86400000 b] 0 = Some (bar 0 a)"
  "getPriceOnDate [bar 0 a, bar 86400000 b] 86400000 = Some (bar 86400000 b)"
  by (simp_all add: getPriceOnDate_def bar_simps)

lemma sameDay_simps: "sameDay 0 0" "\<not> sameDay 0 86400000"
  by (simp_all add: sameDay_def msPerDay_def)

lemma entry_day0:
  assumes "src ''ACME'' 0 (endDate cfg + holdingPeriodDays cfg * 24 * 60 * 60 * 1000) =
           [bar 0 100, bar 86400000 b]"
    and "initialCapital cfg = Fin 10000" and "maxPositions cfg = 1"
  shows "openPositionsForDay src cfg [acmeSignal] 0 (initialState cfg) =
         (initialState cfg) \<lparr> openPositions := heldPosition, capital := Fin 0 \<rparr>"
  using assms
  by (simp add: openPositionsForDay_def openPosition_def initialState_def sameDay_simps
      mapHas_def mapSet_def sliceFromStart_def getPriceOnDate_two jsgt_def jssub_def
      heldPosition_def acmeSignal_def bar_simps Let_def)


lemma exit_day0:
  assumes "src ''ACME'' 0 0 = [bar 0 100, bar 86400000 b]"
    and "endDate cfg = 86400000" and "holdingPeriodDays cfg = 30"
    and "stopLoss cfg = Some (Fin 20)" and "takeProfit cfg = None"
  shows "checkExitsForDay src cfg 0 (st \<lparr> openPositions := heldPosition \<rparr>) =
         st \<lparr> openPositions := heldPosition \<rparr>"
  using assms
  by (simp add: checkExitsForDay_def checkExit_def heldPosition_def getPriceOnDate_two
      bar_simps returnPercentOf_def exitDecision_def stopLossHit_def takeProfitHit_def
      truthy_def jssub_def msPerDay_def Let_def)

lemma costBasis_held: "costBasis heldPosition = Fin 10000"
  by (simp add: costBasis_def heldPosition_def)

lemma costBasis_empty: "costBasis [] = Fin 0"
  by (simp add: costBasis_def)

lemma exit_day1:
  assumes "src ''ACME'' 86400000 86400000 = [bar 0 100, bar 86400000 b]"
    and "endDate cfg = 86400000" and "holdingPeriodDays cfg = 30"
  shows "checkExitsForDay src cfg 86400000 (st \<lparr> openPositions := heldPosition \<rparr>) =
         st \<lparr> st_trades := st_trades st @
               [\<lparr> t_ticker = ''ACME'', t_entryDate = CurrentDateObject, t_entryPrice = Fin 100,
                  t_exitDate = CurrentDateObject, t_exitPrice = Fin b, t_shares = Fin 100,
                  positionValue = Fin 10000, returnPercent = Fin ((b - 100) / 100 * 100),
                  returnDollars = Fin (100 * (b - 100)), convergenceScoreAtEntry = 80,
                  holdingDays = 0, exitReason = end_of_test \<rparr>],
              capital := jsadd (capital st) (Fin (100 * b)), openPositions := [] \<rparr>"
  using assms
  by (simp add: checkExitsForDay_def checkExit_def heldPosition_def getPriceOnDate_two
      bar_simps returnPercentOf_def exitDecision_def
      jssub_def msPerDay_def Let_def mapDelete_def acmeSignal_def)


lemma no_entry_day1:
  "openPositionsForDay src cfg [acmeSignal] 86400000 st = st"
  by (simp add: openPositionsForDay_def sameDay_def msPerDay_def acmeSignal_def
      sliceFromStart_def)

lemma twoDayConfig_simps:
  "startDate twoDayConfig = 0" "endDate twoDayConfig = 86400000"
  "initialCapital twoDayConfig = Fin 10000" "maxPositions twoDayConfig = 1"
  "holdingPeriodDays twoDayConfig = 30" "stopLoss twoDayConfig = Some (Fin 20)"
  "takeProfit twoDayConfig = None" "minConvergenceScore twoDayConfig = Fin 50"
  by (simp_all add: twoDayConfig_def)

lemma day0_falling:
  "dayStep fallingPrices twoDayConfig [acmeSignal] 0 (initialState twoDayConfig) =
     (initialState twoDayConfig) \<lparr> openPositions := heldPosition, capital := Fin 0 \<rparr>"
proof -
  have e: "openPositionsForDay fallingPrices twoDayConfig [acmeSignal] 0 (initialState twoDayConfig) =
           (initialState twoDayConfig) \<lparr> openPositions := heldPosition, capital := Fin 0 \<rparr>"
    by (rule entry_day0) (simp_all add: fallingPrices_def twoDayConfig_simps)
  have x: "checkExitsForDay fallingPrices twoDayConfig 0
             ((initialState twoDayConfig) \<lparr> capital := Fin 0 \<rparr> \<lparr> openPositions := heldPosition \<rparr>) =
           (initialState twoDayConfig) \<lparr> capital := Fin 0 \<rparr> \<lparr> openPositions := heldPosition \<rparr>"
    by (rule exit_day0) (simp_all add: fallingPrices_def twoDayConfig_simps)
  show ?thesis
    unfolding dayStep_def e using x
    by (simp add: trackDrawdown_def costBasis_held initialState_def twoDayConfig_simps
        jsmax_def jssub_def Let_def)
qed

lemma day1_falling:
  "dayStep fallingPrices twoDayConfig [acmeSignal] 86400000
     ((initialState twoDayConfig) \<lparr> openPositions := heldPosition, capital := Fin 0 \<rparr>) =
   \<lparr> st_trades =
       [\<lparr> t_ticker = ''ACME'', t_entryDate = CurrentDateObject, t_entryPrice = Fin 100,
          t_exitDate = CurrentDateObject, t_exitPrice = Fin 79, t_shares = Fin 100,
          positionValue = Fin 10000, returnPercent = Fin (- 21),
          returnDollars = Fin (- 2100), convergenceScoreAtEntry = 80,
          holdingDays = 0, exitReason = end_of_test \<rparr>],
     capital = Fin 7900, maxCapital = Fin 10000, st_maxDrawdown = Fin (- 21),
     st_maxDrawdownDate = Some 86400000, openPositions = [] \<rparr>"
proof -
  have x: "checkExitsForDay fallingPrices twoDayConfig 86400000
             ((initialState twoDayConfig) \<lparr> capital := Fin 0 \<rparr> \<lparr> openPositions := heldPosition \<rparr>) =
           (initialState twoDayConfig) \<lparr> capital := Fin 0 \<rparr>
             \<lparr> st_trades := st_trades ((initialState twoDayConfig) \<lparr> capital := Fin 0 \<rparr>) @
               [\<lparr> t_ticker = ''ACME'', t_entryDate = CurrentDateObject, t_entryPrice = Fin 100,
                  t_exitDate = CurrentDateObject, t_exitPrice = Fin 79, t_shares = Fin 100,
                  positionValue = Fin 10000, returnPercent = Fin ((79 - 100) / 100 * 100),
                  returnDollars = Fin (100 * (79 - 100)), convergenceScoreAtEntry = 80,
                  holdingDays = 0, exitReason = end_of_test \<rparr>],
              capital := jsadd (capital ((initialState twoDayConfig) \<lparr> capital := Fin 0 \<rparr>)) (Fin (100 * 79)),
              openPositions := [] \<rparr>"
    by (rule exit_day1) (simp_all add: fallingPrices_def twoDayConfig_simps)
  show ?thesis
    unfolding dayStep_def no_entry_day1 using x
    by (simp add: trackDrawdown_def costBasis_empty initialState_def twoDayConfig_simps
        jsmax_def jssub_def Let_def)
qed

lemma run_falling:
  "simulate fallingPrices twoDayConfig [acmeSignal] 0 (initialState twoDayConfig) =
   \<lparr> st_trades =
       [\<lparr> t_ticker = ''ACME'', t_entryDate = CurrentDateObject, t_entryPrice = Fin 100,
          t_exitDate = CurrentDateObject, t_exitPrice = Fin 79, t_shares = Fin 100,
          positionValue = Fin 10000, returnPercent = Fin (- 21),
          returnDollars = Fin (- 2100), convergenceScoreAtEntry = 80,
          holdingDays = 0, exitReason = end_of_test \<rparr>],
     capital = Fin 7900, maxCapital = Fin 10000, st_maxDrawdown = Fin (- 21),
     st_maxDrawdownDate = Some 86400000, openPositions = [] \<rparr>"
  by (simp add: simulate.simps [where currentDate = 0]
      simulate.simps [where currentDate = 86400000]
      simulate.simps [where currentDate = 172800000]
      day0_falling day1_falling twoDayConfig_simps msPerDay_def)


lemma qualified_acme:
  "jsge (Fin (convergenceScore acmeSignal)) (minConvergenceScore twoDayConfig)"
  by (simp add: twoDayConfig_simps jsge_def acmeSignal_def)

lemma runBacktest_falling:
  "runBacktest (Some signalDb) 0 fallingPrices twoDayConfig =
     Inr (finalMetrics twoDayConfig
       (simulate fallingPrices twoDayConfig [acmeSignal] 0 (initialState twoDayConfig)))"
  by (simp add: runBacktest_def twoDayConfig_simps(1,2) qualified_signalDb qualified_acme)

section \<open>Exit reasons\<close>

text \<open>
  Claim C1 as stated fails. In the run below the position is bought at 100 on the first
  day and the close of the last day is 79, with a stop-loss of 20 percent: the stop-loss
  is breached (the recorded return is -21 percent), yet the one trade recorded has the
  reason end of test. And where the stop-loss and the holding period are both reached on a
  day before the end of the window, the four checks give the reason holding period.
\<close>

theorem exit_priority_counterexample:
  "\<not> isl (runBacktest (Some signalDb) 0 fallingPrices twoDayConfig) \<and>
   map exitReason (trades (projr (runBacktest (Some signalDb) 0 fallingPrices twoDayConfig))) =
     [end_of_test] \<and>
   map returnPercent (trades (projr (runBacktest (Some signalDb) 0 fallingPrices twoDayConfig))) =
     [Fin (- 21)] \<and>
   stopLossHit twoDayConfig (Fin (- 21)) \<and>
   holdingPeriodDays twoDayConfig = 30 \<and>
   exitDecision twoDayConfig (Fin (- 21)) 30 0 = (True, holding_period)"
  by (simp add: runBacktest_falling run_falling finalMetrics_def Let_def stopLossHit_def
      takeProfitHit_def exitDecision_def twoDayConfig_simps truthy_def)

lemma exitDecision_eq:
  "exitDecision cfg ret days cur =
     (stopLossHit cfg ret \<or> takeProfitHit cfg ret \<or> holdingPeriodDays cfg \<le> days \<or>
        endDate cfg \<le> cur,
      if endDate cfg \<le> cur then end_of_test
      else if holdingPeriodDays cfg \<le> days then holding_period
      else if takeProfitHit cfg ret then take_profit
      else if stopLossHit cfg ret then stop_loss
      else holding_period)"
  by (simp add: exitDecision_def Let_def)

lemma checkExit_cases:
  "checkExit load cfg cur st e = st \<or>
   (\<exists>t. st_trades (checkExit load cfg cur st e) = st_trades st @ [t] \<and>
        t_ticker t = fst e \<and>
        fst (exitDecision cfg (returnPercent t) (holdingDays t) cur) \<and>
        exitReason t = snd (exitDecision cfg (returnPercent t) (holdingDays t) cur) \<and>
        openPositions (checkExit load cfg cur st e) = mapDelete (fst e) (openPositions st))"
  by (simp add: checkExit_def Let_def split: option.splits)

lemma mapDelete_absent: "k \<notin> fst ` set m \<Longrightarrow> mapDelete k m = m"
  by (induction m) (auto simp: mapDelete_def)

lemma mapDelete_middle:
  assumes "distinct (map fst (keep @ e # es))"
  shows "mapDelete (fst e) (keep @ e # es) = keep @ es"
proof -
  have "fst e \<notin> fst ` set keep" "fst e \<notin> fst ` set es"
    using assms by auto
  then have "mapDelete (fst e) keep = keep" "mapDelete (fst e) es = es"
    by (simp_all add: mapDelete_absent)
  then show ?thesis by (simp add: mapDelete_def)
qed

lemma exits_one_trade_each:
  "openPositions s = keep @ es \<Longrightarrow> distinct (map fst (keep @ es)) \<Longrightarrow>
   length (st_trades (foldl (checkExit load cfg cur) s es)) +
   length (openPositions (foldl (checkExit load cfg cur) s es)) =
   length (st_trades s) + length (openPositions s)"
proof (induction es arbitrary: s keep)
  case Nil
  then show ?case by simp
next
  case (Cons e es)
  let ?s' = "checkExit load cfg cur s e"
  consider (stay) "?s' = s"
    | (exit) t where "st_trades ?s' = st_trades s @ [t]"
        "openPositions ?s' = mapDelete (fst e) (openPositions s)"
    using checkExit_cases [of load cfg cur s e] by blast
  then show ?case
  proof cases
    case stay
    have "openPositions s = (keep @ [e]) @ es" "distinct (map fst ((keep @ [e]) @ es))"
      using Cons.prems by simp_all
    from Cons.IH [OF this] show ?thesis using stay by simp
  next
    case exit
    have tbl: "openPositions ?s' = keep @ es"
      using exit(2) Cons.prems mapDelete_middle [of keep e es] by simp
    have d: "distinct (map fst (keep @ es))" using Cons.prems(2) by simp
    from Cons.IH [OF tbl d] show ?thesis
      using exit(1) tbl Cons.prems(1) by simp
  qed
qed

text \<open>
  Claim C1, as amended. When several exit conditions hold on the same day for one open
  position, the recorded reason is that of the last check that holds, in the order
  stop-loss, take-profit, holding period, end of test: the end of the test window has the
  highest priority, then the holding period, then take-profit, then stop-loss. A position
  checked on a day either stays as it is, or is removed from the table with exactly one
  trade recorded, tagged with the reason the checks give for the trade's own return and
  holding days; over a day, the trades recorded and the positions left add up to what
  they were.
\<close>

theorem exit_reason_last_check_wins:
  "exitDecision cfg ret days cur =
     (stopLossHit cfg ret \<or> takeProfitHit cfg ret \<or> holdingPeriodDays cfg \<le> days \<or>
        endDate cfg \<le> cur,
      if endDate cfg \<le> cur then end_of_test
      else if holdingPeriodDays cfg \<le> days then holding_period
      else if takeProfitHit cfg ret then take_profit
      else if stopLossHit cfg ret then stop_loss
      else holding_period) \<and>
   (checkExit load cfg cur st e = st \<or>
    (\<exists>t. st_trades (checkExit load cfg cur st e) = st_trades st @ [t] \<and>
        t_ticker t = fst e \<and>
        fst (exitDecision cfg (returnPercent t) (holdingDays t) cur) \<and>
        exitReason t = snd (exitDecision cfg (returnPercent t) (holdingDays t) cur) \<and>
        openPositions (checkExit load cfg cur st e) = mapDelete (fst e) (openPositions st))) \<and>
   (distinct (map fst (openPositions st)) \<longrightarrow>
      length (st_trades (checkExitsForDay load cfg cur st)) +
      length (openPositions (checkExitsForDay load cfg cur st)) =
      length (st_trades st) + length (openPositions st))"
proof (intro conjI impI)
  show "exitDecision cfg ret days cur =
     (stopLossHit cfg ret \<or> takeProfitHit cfg ret \<or> holdingPeriodDays cfg \<le> days \<or>
        endDate cfg \<le> cur,
      if endDate cfg \<le> cur then end_of_test
      else if holdingPeriodDays cfg \<le> days then holding_period
      else if takeProfitHit cfg ret then take_profit
      else if stopLossHit cfg ret then stop_loss
      else holding_period)"
    by (rule exitDecision_eq)
  show "checkExit load cfg cur st e = st \<or>
    (\<exists>t. st_trades (checkExit load cfg cur st e) = st_trades st @ [t] \<and>
        t_ticker t = fst e \<and>
        fst (exitDecision cfg (returnPercent t) (holdingDays t) cur) \<and>
        exitReason t = snd (exitDecision cfg (returnPercent t) (holdingDays t) cur) \<and>
        openPositions (checkExit load cfg cur st e) = mapDelete (fst e) (openPositions st))"
    by (rule checkExit_cases)
  assume "distinct (map fst (openPositions st))"
  then show "length (st_trades (checkExitsForDay load cfg cur st)) +
      length (openPositions (checkExitsForDay load cfg cur st)) =
      length (st_trades st) + length (openPositions st)"
    unfolding checkExitsForDay_def
    using exits_one_trade_each [of st "[]" "openPositions st" load cfg cur] by simp
qed


theorem exit_reason_last_check_wins_witness:
  "exitDecision twoDayConfig (Fin (- 21)) 0 86400000 = (True, end_of_test) \<and>
   distinct (map fst (openPositions
     ((initialState twoDayConfig) \<lparr> openPositions := heldPosition, capital := Fin 0 \<rparr>))) \<and>
   length (st_trades (checkExitsForDay fallingPrices twoDayConfig 86400000
     ((initialState twoDayConfig) \<lparr> openPositions := heldPosition, capital := Fin 0 \<rparr>))) +
   length (openPositions (checkExitsForDay fallingPrices twoDayConfig 86400000
     ((initialState twoDayConfig) \<lparr> openPositions := heldPosition, capital := Fin 0 \<rparr>))) = 1"
  using exit_reason_last_check_wins [of twoDayConfig "Fin (- 21)" 0 86400000 fallingPrices
      "(initialState twoDayConfig) \<lparr> openPositions := heldPosition, capital := Fin 0 \<rparr>"
      "hd heldPosition"]
  by (simp add: twoDayConfig_simps stopLossHit_def takeProfitHit_def truthy_def
      heldPosition_def initialState_def)

section \<open>Configurations that break the constraints\<close>



lemma getPriceOnDate_mem: "getPriceOnDate ps t = Some p \<Longrightarrow> p \<in> set ps"
  by (auto simp: getPriceOnDate_def find_Some_iff split: option.splits if_splits)

lemma positivePrices_close:
  assumes "positivePrices load" and "getPriceOnDate (load tk a b) t = Some p"
  shows "\<exists>x. hp_close p = Fin x \<and> 0 < x"
proof -
  have "p \<in> set (load tk a b)" by (rule getPriceOnDate_mem [OF assms(2)])
  then have "positiveClose p"
    using assms(1) by (auto simp: positivePrices_def list_all_iff)
  then show ?thesis by (auto simp: positiveClose_def split: jsnum.splits)
qed

lemma jsdiv_Fin: "b \<noteq> 0 \<Longrightarrow> jsdiv (Fin a) (Fin b) = Fin (a / b)"
  by simp

lemma openPosition_negative:
  assumes neg: "maxPositions cfg - int (length (openPositions st)) < 0"
    and pos: "positivePrices load"
  shows "openPosition load cfg cur st sig = st"
proof (cases "getPriceOnDate (load (s_ticker sig) cur
                (endDate cfg + holdingPeriodDays cfg * 24 * 60 * 60 * 1000)) cur")
  case None
  then show ?thesis by (simp add: openPosition_def)
next
  case (Some p)
  obtain x where x: "hp_close p = Fin x" "0 < x"
    using positivePrices_close [OF pos Some] by blast
  let ?d = "real_of_int (maxPositions cfg - int (length (openPositions st)))"
  have d: "?d < 0" using neg by simp
  have "\<not> jsgt (jsfloor (jsdiv (jsdiv (capital st) (Fin ?d)) (Fin x))) (Fin 0)"
    if "jsgt (capital st) (Fin 0)"
  proof (cases "capital st")
    case (Fin c)
    then have "0 < c" using that by (simp add: jsgt_def)
    then have "c / ?d < 0" using d by (rule divide_pos_neg)
    then have "c / ?d / x < 0" using x(2) by (rule divide_neg_pos)
    then have "\<lfloor>c / ?d / x\<rfloor> < 0" by (simp only: floor_less_zero)
    then have "\<not> 0 < real_of_int \<lfloor>c / ?d / x\<rfloor>" by simp
    moreover have "?d \<noteq> 0" "x \<noteq> 0" using d x(2) by simp_all
    ultimately show ?thesis
      unfolding Fin by (simp only: jsdiv_Fin jsgt_def jsfloor.simps jslt.simps not_False_eq_True)
  next
    case PosInf
    then show ?thesis using d x(2) by (simp add: jsgt_def signedInf_def)
  next
    case NegInf
    then show ?thesis using that by (simp add: jsgt_def)
  next
    case NaN
    then show ?thesis using that by (simp add: jsgt_def)
  qed
  then show ?thesis using Some x by (simp add: openPosition_def Let_def)
qed

lemma foldl_fixed: "(\<And>x. f s x = s) \<Longrightarrow> foldl f s xs = s"
  by (induction xs) simp_all

lemma openPositionsForDay_idle:
  assumes "idle cfg st"
    and "sigs = [] \<or> maxPositions cfg = 0 \<or> (maxPositions cfg < 0 \<and> positivePrices load)"
  shows "openPositionsForDay load cfg sigs cur st = st"
proof -
  have tbl: "openPositions st = []" using assms(1) by (simp add: idle_def)
  consider "sigs = []" | "maxPositions cfg = 0" | "maxPositions cfg < 0" "positivePrices load"
    using assms(2) by blast
  then show ?thesis
  proof cases
    case 1
    then show ?thesis by (simp add: openPositionsForDay_def sliceFromStart_def)
  next
    case 2
    then show ?thesis by (simp add: openPositionsForDay_def sliceFromStart_def tbl)
  next
    case 3
    have "openPosition load cfg cur st x = st" for x
      by (rule openPosition_negative) (simp_all add: tbl 3)
    then show ?thesis unfolding openPositionsForDay_def Let_def by (rule foldl_fixed)
  qed
qed

lemma trackDrawdown_fields:
  "openPositions (trackDrawdown cur st) = openPositions st"
  "st_trades (trackDrawdown cur st) = st_trades st"
  "capital (trackDrawdown cur st) = capital st"
  by (simp_all add: trackDrawdown_def Let_def)

lemma dayStep_idle:
  assumes "idle cfg st"
    and "sigs = [] \<or> maxPositions cfg = 0 \<or> (maxPositions cfg < 0 \<and> positivePrices load)"
  shows "idle cfg (dayStep load cfg sigs cur st)"
proof -
  have "checkExitsForDay load cfg cur st = st"
    using assms(1) by (simp add: checkExitsForDay_def idle_def)
  then show ?thesis
    using assms(1)
    by (simp add: dayStep_def openPositionsForDay_idle [OF assms] idle_def trackDrawdown_fields)
qed

lemma simulate_idle:
  "sigs = [] \<or> maxPositions cfg = 0 \<or> (maxPositions cfg < 0 \<and> positivePrices load) \<Longrightarrow>
   idle cfg st \<Longrightarrow> idle cfg (simulate load cfg sigs cur st)"
proof (induction load cfg sigs cur st rule: simulate.induct)
  case (1 load cfg sigs cur st)
  show ?case
  proof (cases "cur \<le> endDate cfg")
    case True
    have "idle cfg (dayStep load cfg sigs cur st)"
      by (rule dayStep_idle [OF "1.prems"(2) "1.prems"(1)])
    from "1.IH" [OF True "1.prems"(1) this] show ?thesis
      using True by (simp add: simulate.simps [of load cfg sigs cur st])
  next
    case False
    then show ?thesis using "1.prems" by (simp add: simulate.simps [of load cfg sigs cur st])
  qed
qed

lemma idle_initialState: "idle cfg (initialState cfg)"
  by (simp add: idle_def initialState_def)









section \<open>Division by zero\<close>

lemma returnPercentOf_zero_base: "nonFinite (returnPercentOf c (Fin 0))"
  by (cases c) (simp_all add: returnPercentOf_def jssub_def nonFinite_def signedInf_def)

lemma totalReturn_zero_capital:
  "initialCapital cfg = Fin 0 \<Longrightarrow> nonFinite (totalReturn (finalMetrics cfg st))"
  using returnPercentOf_zero_base [of "capital st"]
  by (simp add: finalMetrics_def Let_def returnPercentOf_def)

lemma averages_of_no_trades:
  "st_trades st = [] \<Longrightarrow>
     winRate (finalMetrics cfg st) = Fin 0 \<and> avgWin (finalMetrics cfg st) = Fin 0 \<and>
     avgLoss (finalMetrics cfg st) = Fin 0 \<and> avgHoldingPeriod (finalMetrics cfg st) = Fin 0"
  by (simp add: finalMetrics_def Let_def)

text \<open>
  Claim C5 as stated fails: with no starting capital the total return of a run is NaN,
  and the return percent against an entry price of zero is NaN or an infinity.
\<close>

theorem zero_base_counterexample:
  "initialCapital noCapital = Fin 0 \<and>
   \<not> isl (runBacktest None 0 fallingPrices noCapital) \<and>
   totalReturn (projr (runBacktest None 0 fallingPrices noCapital)) = NaN \<and>
   returnPercentOf (Fin 50) (Fin 0) = PosInf \<and>
   returnPercentOf (Fin 0) (Fin 0) = NaN"
proof -
  have r: "runBacktest None 0 fallingPrices noCapital =
      Inr (finalMetrics noCapital (simulate fallingPrices noCapital [] (startDate noCapital)
        (initialState noCapital)))"
    by (simp add: runBacktest_def generateSignalsForPeriod_def)
  have "idle noCapital (simulate fallingPrices noCapital [] (startDate noCapital)
        (initialState noCapital))"
    by (rule simulate_idle) (simp_all add: idle_initialState)
  moreover have ic: "initialCapital noCapital = Fin 0"
    by (simp add: noCapital_def)
  ultimately have "capital (simulate fallingPrices noCapital [] (startDate noCapital)
        (initialState noCapital)) = Fin 0"
    by (simp add: idle_def)
  then show ?thesis
    using ic by (simp add: r finalMetrics_def Let_def jssub_def returnPercentOf_def signedInf_def)
qed

text \<open>
  Claim C5, as amended. The averages whose divisor is a count (win rate, average win,
  average loss, average holding period) are 0 for an empty list of trades. The return
  percent against a zero entry price and the total return against zero starting capital
  are plain IEEE divisions: the result is NaN or an infinity, not 0. No exception is
  raised: without a database \<open>runBacktest\<close> returns a result for every configuration.
\<close>

theorem division_by_zero_results:
  "(st_trades st = [] \<longrightarrow>
      winRate (finalMetrics cfg st) = Fin 0 \<and> avgWin (finalMetrics cfg st) = Fin 0 \<and>
      avgLoss (finalMetrics cfg st) = Fin 0 \<and> avgHoldingPeriod (finalMetrics cfg st) = Fin 0) \<and>
   nonFinite (returnPercentOf c (Fin 0)) \<and>
   (initialCapital cfg = Fin 0 \<longrightarrow> nonFinite (totalReturn (finalMetrics cfg st))) \<and>
   \<not> isl (runBacktest None now load cfg)"
  using averages_of_no_trades [of st cfg] returnPercentOf_zero_base [of c]
    totalReturn_zero_capital [of cfg st]
  by (simp add: runBacktest_def generateSignalsForPeriod_def)

theorem division_by_zero_results_witness:
  "st_trades (initialState noCapital) = [] \<and>
   winRate (finalMetrics noCapital (initialState noCapital)) = Fin 0 \<and>
   avgWin (finalMetrics noCapital (initialState noCapital)) = Fin 0 \<and>
   initialCapital noCapital = Fin 0 \<and>
   nonFinite (totalReturn (finalMetrics noCapital (initialState noCapital))) \<and>
   nonFinite (returnPercentOf (Fin 50) (Fin 0)) \<and>
   \<not> isl (runBacktest None 0 fallingPrices noCapital)"
  using division_by_zero_results [of "initialState noCapital" noCapital "Fin 50" 0 fallingPrices]
  by (simp add: initialState_def noCapital_def)

section \<open>Capital conservation\<close>



































end
